theory Spec2Isabelle
  imports Complex_Main
begin

section \<open>Perievent analysis of fiber photometry sessions\<close>

text \<open>
  A shallow embedding of \<^verbatim>\<open>src/fiberphotopy/analysis.py\<close>: the sampler
  \<^verbatim>\<open>RatSession._sample\<close>, the perievent pipeline
  \<^verbatim>\<open>RatSession.analyze_perievent\<close>, \<^verbatim>\<open>RatSession.update_window\<close> and the
  smoother \<^verbatim>\<open>Analysis.smooth\<close>.

  Conventions of the embedding.
  \<^item> Time stamps and samples are Python floats. Where the code compares floats for
    equality or takes a ceiling (the sampler, the window of the smoother), the rounding
    of binary64 arithmetic is modelled. The arrays and statistics of the pipeline are
    idealised as \<open>real\<close>; there a float that may be non-finite (the result of a numpy
    division by zero or of a mean over an empty array, which numpy returns as \<open>nan\<close> or
    \<open>inf\<close> with a warning and without raising) is a \<open>real option\<close>, \<open>None\<close> standing for
    \<open>nan\<close> and \<open>inf\<close>. In this pipeline a non-finite value never becomes finite again.
  \<^item> A Python exception is a value of type \<open>error\<close>; a function that can raise returns
    \<open>error + 'a\<close>.
  \<^item> numpy and pandas primitives with a fixed documented meaning (\<open>abs\<close>, \<open>min\<close>,
    \<open>np.where\<close>, slicing, \<open>mean\<close>, \<open>std\<close>, \<open>median\<close>, \<open>rolling(...).mean()\<close>) are
    written out. The numerical routines of scipy (\<open>integrate.simpson\<close>,
    \<open>signal.savgol_filter\<close>), Python's \<open>float\<close> parser and the methods of the
    behavioural and fiber data objects are not part of the file: they are parameters.
\<close>

subsection \<open>Exceptions\<close>

text \<open>The exceptions that the code of the file can meet; \<open>LibraryError\<close> is any other
  exception that a library or a collaborator raises.\<close>

datatype error =
    ValueError
  | IndexError
  | KeyError
  | TypeError
  | OverflowError
  | UnboundLocalError
  | LibraryError string

type_synonym float = "real option"

subsection \<open>Floating-point numbers\<close>

text \<open>
  Python floats are IEEE binary64 numbers. A finite float is the real number it denotes;
  \<open>round64\<close> gives the float that an arithmetic operation returns for the exact result
  \<open>x\<close>: the nearest binary64 number, ties to the even mantissa, with gradual underflow
  below \<open>2 powi (- 1022)\<close> and overflow to an infinity from \<open>2 ^ 1024\<close> on (numpy and Python
  return the infinity; they do not raise). The two zeros are one value.
\<close>

datatype xfloat = Fin real | PosInf | NegInf | NaN

text \<open>Rounding to the nearest integer, ties to the even one.\<close>

definition rne :: "real \<Rightarrow> int" where
  "rne r =
     (let f = \<lfloor>r\<rfloor>; d = r - of_int f
      in if d < 1 / 2 then f
         else if 1 / 2 < d then f + 1
         else if even f then f else f + 1)"

text \<open>The binary exponent of a non-zero real, not below that of the subnormal numbers;
  the floats of that exponent are the multiples of \<open>2 powi (binade x - 52)\<close>.\<close>

definition binade :: "real \<Rightarrow> int" where
  "binade x = max \<lfloor>log 2 \<bar>x\<bar>\<rfloor> (- 1022)"

definition round_nearest :: "real \<Rightarrow> real" where
  "round_nearest x =
     (if x = 0 then 0
      else of_int (rne (x / 2 powi (binade x - 52))) * 2 powi (binade x - 52))"

definition round64 :: "real \<Rightarrow> xfloat" where
  "round64 x =
     (let r = round_nearest x
      in if 2 ^ 1024 \<le> r then PosInf
         else if r \<le> - (2 ^ 1024) then NegInf
         else Fin r)"

text \<open>Subtraction and addition of two finite floats.\<close>

definition fsub :: "real \<Rightarrow> real \<Rightarrow> xfloat" where
  "fsub a b = round64 (a - b)"

definition fadd :: "real \<Rightarrow> real \<Rightarrow> xfloat" where
  "fadd a b = round64 (a + b)"

text \<open>Multiplication of floats, and division of a float by a positive finite constant.\<close>

definition xmul :: "xfloat \<Rightarrow> xfloat \<Rightarrow> xfloat" where
  "xmul a b =
     (case (a, b) of
        (NaN, _) \<Rightarrow> NaN
      | (_, NaN) \<Rightarrow> NaN
      | (Fin x, Fin y) \<Rightarrow> round64 (x * y)
      | (Fin x, PosInf) \<Rightarrow> if x = 0 then NaN else if 0 < x then PosInf else NegInf
      | (Fin x, NegInf) \<Rightarrow> if x = 0 then NaN else if 0 < x then NegInf else PosInf
      | (PosInf, Fin y) \<Rightarrow> if y = 0 then NaN else if 0 < y then PosInf else NegInf
      | (NegInf, Fin y) \<Rightarrow> if y = 0 then NaN else if 0 < y then NegInf else PosInf
      | (PosInf, PosInf) \<Rightarrow> PosInf
      | (NegInf, NegInf) \<Rightarrow> PosInf
      | (PosInf, NegInf) \<Rightarrow> NegInf
      | (NegInf, PosInf) \<Rightarrow> NegInf)"

definition xdiv_const :: "xfloat \<Rightarrow> real \<Rightarrow> xfloat" where
  "xdiv_const a c = (case a of Fin x \<Rightarrow> round64 (x / c) | PosInf \<Rightarrow> PosInf
                     | NegInf \<Rightarrow> NegInf | NaN \<Rightarrow> NaN)"

text \<open>\<^verbatim>\<open>math.ceil\<close>: \<^verbatim>\<open>ValueError\<close> on \<open>nan\<close>, \<^verbatim>\<open>OverflowError\<close> on an infinity.\<close>

definition py_ceil :: "xfloat \<Rightarrow> error + int" where
  "py_ceil a = (case a of Fin x \<Rightarrow> Inr \<lceil>x\<rceil> | NaN \<Rightarrow> Inl ValueError
                | PosInf \<Rightarrow> Inl OverflowError | NegInf \<Rightarrow> Inl OverflowError)"

subsection \<open>The sampler\<close>

text \<open>
  One entry of \<^verbatim>\<open>abs(time_array - t)\<close>, for a finite sample \<open>x\<close> and a target \<open>t\<close> that is
  finite or infinite: a float between 0 and \<open>+inf\<close>. Such floats are only compared with
  each other; \<open>+inf\<close> is written as \<open>infinity64\<close>, a real above every finite float.
\<close>

definition infinity64 :: real where
  "infinity64 = 2 ^ 1024"

definition distance :: "real \<Rightarrow> xfloat \<Rightarrow> real" where
  "distance x t =
     (case t of
        Fin s \<Rightarrow> (case fsub x s of Fin r \<Rightarrow> \<bar>r\<bar> | PosInf \<Rightarrow> infinity64
                   | NegInf \<Rightarrow> infinity64 | NaN \<Rightarrow> infinity64)
      | PosInf \<Rightarrow> infinity64
      | NegInf \<Rightarrow> infinity64
      | NaN \<Rightarrow> infinity64)"

text \<open>\<^verbatim>\<open>abs(time_array - t)\<close>: the element-wise distance to a target time.\<close>

definition abs_diff :: "real list \<Rightarrow> xfloat \<Rightarrow> real list" where
  "abs_diff time_array t = map (\<lambda>x. distance x t) time_array"

text \<open>Python's builtin \<^verbatim>\<open>min\<close>: \<^verbatim>\<open>ValueError\<close> on an empty sequence.\<close>

definition py_min :: "real list \<Rightarrow> error + real" where
  "py_min xs = (case xs of [] \<Rightarrow> Inl ValueError | y # ys \<Rightarrow> Inr (fold min ys y))"

text \<open>\<^verbatim>\<open>np.where(ds == m)[0]\<close>: the indices, in increasing order, where \<open>ds\<close> equals \<open>m\<close>.\<close>

definition np_where_eq :: "real list \<Rightarrow> real \<Rightarrow> nat list" where
  "np_where_eq ds m = filter (\<lambda>i. ds ! i = m) [0..<length ds]"

text \<open>Indexing an index array with \<^verbatim>\<open>[0]\<close> and with \<^verbatim>\<open>[-1]\<close>.\<close>

definition first_index :: "nat list \<Rightarrow> error + nat" where
  "first_index js = (case js of [] \<Rightarrow> Inl IndexError | j # _ \<Rightarrow> Inr j)"

definition last_index :: "nat list \<Rightarrow> error + nat" where
  "last_index js = (if js = [] then Inl IndexError else Inr (last js))"

text \<open>\<^verbatim>\<open>np.where(ds == min(ds))[0][k]\<close> on an array \<open>ds\<close> of distances, with \<open>pick\<close> the final
  indexing.\<close>

definition nearest_index :: "(nat list \<Rightarrow> error + nat) \<Rightarrow> real list \<Rightarrow> error + nat" where
  "nearest_index pick ds =
     (case py_min ds of
        Inl e \<Rightarrow> Inl e
      | Inr m \<Rightarrow> pick (np_where_eq ds m))"

text \<open>
  One line of \<^verbatim>\<open>_sample\<close>:
  \<^verbatim>\<open>np.where(abs(time_array - t) == min(abs(time_array - t)))[0][k]\<close>. Were the target
  \<open>nan\<close>, every distance would be \<open>nan\<close> and equal to nothing: \<^verbatim>\<open>np.where\<close> would return no
  index. (With finite arguments \<^verbatim>\<open>_sample\<close> has no such target.)
\<close>

definition locate :: "(nat list \<Rightarrow> error + nat) \<Rightarrow> real list \<Rightarrow> xfloat \<Rightarrow> error + nat" where
  "locate pick time_array t =
     (if t = NaN \<and> time_array \<noteq> [] then Inl IndexError
      else nearest_index pick (abs_diff time_array t))"

text \<open>\<^verbatim>\<open>RatSession._sample(time_array, event_time, window)\<close>, for finite floats.\<close>

definition sample :: "real list \<Rightarrow> real \<Rightarrow> real \<times> real \<Rightarrow> error + (nat \<times> nat \<times> nat)" where
  "sample time_array event_time window =
     (let start = fsub event_time (fst window);
          end = fadd event_time (snd window)
      in case locate first_index time_array start of
           Inl e \<Rightarrow> Inl e
         | Inr start_idx \<Rightarrow>
        (case locate first_index time_array (Fin event_time) of
           Inl e \<Rightarrow> Inl e
         | Inr event_idx \<Rightarrow>
        (case locate last_index time_array end of
           Inl e \<Rightarrow> Inl e
         | Inr end_idx \<Rightarrow> Inr (start_idx, event_idx, end_idx))))"

subsection \<open>numpy and Python primitives\<close>

text \<open>Python slices \<^verbatim>\<open>xs[i:j]\<close> (both bounds non-negative), \<^verbatim>\<open>xs[k:]\<close> and \<^verbatim>\<open>xs[:k]\<close>; a
  negative \<open>k\<close> counts from the end.\<close>

definition slice :: "nat \<Rightarrow> nat \<Rightarrow> 'a list \<Rightarrow> 'a list" where
  "slice i j xs = drop i (take j xs)"

definition slice_from :: "int \<Rightarrow> 'a list \<Rightarrow> 'a list" where
  "slice_from k xs = (if 0 \<le> k then drop (nat k) xs else drop (length xs - nat (- k)) xs)"

definition slice_upto :: "int \<Rightarrow> 'a list \<Rightarrow> 'a list" where
  "slice_upto k xs = (if 0 \<le> k then take (nat k) xs else take (length xs - nat (- k)) xs)"

text \<open>\<^verbatim>\<open>np.diff\<close>.\<close>

definition np_diff :: "real list \<Rightarrow> real list" where
  "np_diff xs = map (\<lambda>(a, b). b - a) (zip xs (tl xs))"

text \<open>\<^verbatim>\<open>ndarray.mean()\<close>: \<open>nan\<close> on an empty array.\<close>

definition np_mean :: "real list \<Rightarrow> float" where
  "np_mean xs = (if xs = [] then None else Some (sum_list xs / real (length xs)))"

text \<open>\<^verbatim>\<open>ndarray.std()\<close>, the population standard deviation (\<open>ddof = 0\<close>).\<close>

definition np_std :: "real list \<Rightarrow> float" where
  "np_std xs =
     (case np_mean xs of
        None \<Rightarrow> None
      | Some m \<Rightarrow>
         (case np_mean (map (\<lambda>x. (x - m)\<^sup>2) xs) of
            None \<Rightarrow> None
          | Some v \<Rightarrow> Some (sqrt v)))"

text \<open>\<^verbatim>\<open>np.median\<close>.\<close>

definition np_median :: "real list \<Rightarrow> float" where
  "np_median xs =
     (let s = sort xs; n = length xs
      in if n = 0 then None
         else if odd n then Some (s ! (n div 2))
         else Some ((s ! (n div 2 - 1) + s ! (n div 2)) / 2))"

text \<open>\<^verbatim>\<open>scipy.stats.median_abs_deviation\<close> with its default arguments: the median of the
  absolute deviations from the median.\<close>

definition median_abs_deviation :: "real list \<Rightarrow> float" where
  "median_abs_deviation xs =
     (case np_median xs of
        None \<Rightarrow> None
      | Some med \<Rightarrow> np_median (map (\<lambda>x. \<bar>x - med\<bar>) xs))"

text \<open>The same reductions on arrays that may hold non-finite entries: one such entry makes
  the result non-finite.\<close>

definition finite_values :: "float list \<Rightarrow> real list option" where
  "finite_values fs = (if list_all (\<lambda>f. f \<noteq> None) fs then Some (map the fs) else None)"

definition fmean :: "float list \<Rightarrow> float" where
  "fmean fs = (case finite_values fs of None \<Rightarrow> None | Some xs \<Rightarrow> np_mean xs)"

definition fstd :: "float list \<Rightarrow> float" where
  "fstd fs = (case finite_values fs of None \<Rightarrow> None | Some xs \<Rightarrow> np_std xs)"

text \<open>Float division as numpy does it: a zero divisor gives \<open>nan\<close> or \<open>inf\<close>, no exception.\<close>

definition fdiv :: "float \<Rightarrow> float \<Rightarrow> float" where
  "fdiv a b =
     (case a of
        None \<Rightarrow> None
      | Some x \<Rightarrow> (case b of None \<Rightarrow> None | Some y \<Rightarrow> if y = 0 then None else Some (x / y)))"

text \<open>\<^verbatim>\<open>(signal - centre) / scale\<close>, element-wise, with scalar \<open>centre\<close> and \<open>scale\<close>.\<close>

definition standardise :: "real list \<Rightarrow> float \<Rightarrow> float \<Rightarrow> float list" where
  "standardise xs centre scale =
     map (\<lambda>x. case centre of None \<Rightarrow> None | Some c \<Rightarrow> fdiv (Some (x - c)) scale) xs"

subsection \<open>The session and its collaborators\<close>

text \<open>A row of a recording array: time, signal and control (columns 0, 1 and 2).\<close>

type_synonym row = "real \<times> real \<times> real"

definition col0 :: "row \<Rightarrow> real" where "col0 r = fst r"
definition col1 :: "row \<Rightarrow> real" where "col1 r = fst (snd r)"
definition col2 :: "row \<Rightarrow> real" where "col2 r = snd (snd r)"

text \<open>
  The fiber and behavioural data objects are defined outside this file. Their methods
  used here are fields: \<open>find_rec\<close> is \<^verbatim>\<open>FiberData._find_rec\<close> (the recordings holding a
  time stamp), \<open>fiber_norm\<close> is \<^verbatim>\<open>FiberData.norm(rec, method)\<close>, \<open>events\<close> and \<open>intervals\<close>
  are \<^verbatim>\<open>BehavioralData.events(recorded, window)\<close> and \<^verbatim>\<open>intervals(recorded, window)\<close>. Each
  may raise; none of them changes the session.
\<close>

record fiber_data =
  fiber_filepath :: string
  find_rec :: "real \<Rightarrow> error + nat list"
  fiber_norm :: "nat \<Rightarrow> string \<Rightarrow> error + row list"

record behavioral_data =
  behavior_filepath :: string
  events :: "bool \<Rightarrow> real \<times> real \<Rightarrow> error + (string \<rightharpoonup> real list)"
  intervals :: "bool \<Rightarrow> real \<times> real \<Rightarrow> error + (string \<rightharpoonup> (real \<times> real) list)"

text \<open>The attributes of an \<^verbatim>\<open>Analysis\<close> object that \<^verbatim>\<open>analyze_perievent\<close> sets, in two
  groups: the window with its segments and means, then the areas under the curve.\<close>

record perievent_window =
  event_time :: real
  fiberfile :: string
  behaviorfile :: string
  normalisation :: string
  rec_number :: nat
  window :: "real \<times> real"
  recordingdata :: "row list"
  rawdata :: "row list"
  data :: "row list"
  raw_signal :: "real list"
  raw_control :: "real list"
  signal :: "real list"
  time :: "real list"
  sampling_rate :: xfloat
  postevent :: "real list"
  pre_raw_sig :: "real list"
  post_raw_sig :: "real list"
  post_raw_ctrl :: "real list"
  post_time :: "real list"
  preevent :: "real list"
  pre_time :: "real list"
  zscores :: "float list"
  pre_zscores :: "float list"
  post_zscores :: "float list"
  rob_zscores :: "float list"
  pre_Rzscores :: "float list"
  post_Rzscores :: "float list"
  preAVG_Z :: float
  postAVG_Z :: float
  preAVG_RZ :: float
  postAVG_RZ :: float

record analysis = perievent_window +
  pre_raw_AUC :: float
  post_raw_AUC :: float
  preAUC :: float
  postAUC :: float
  preZ_AUC :: float
  postZ_AUC :: float
  preRZ_AUC :: float
  postRZ_AUC :: float

text \<open>The key of the analysis cache, \<^verbatim>\<open>f'rec{rec_number}_{event_time}_{window}'\<close>, kept
  as the triple it is formatted from.\<close>

type_synonym cache_key = "nat \<times> real \<times> (real \<times> real)"

record rat_session =
  rat_ID :: "string option"
  default_window :: "real \<times> real"
  default_norm :: string
  behavior :: behavioral_data
  fiber :: fiber_data
  analyses :: "cache_key \<rightharpoonup> analysis"
  analyzable_events :: "string \<rightharpoonup> real list"
  recorded_intervals :: "string \<rightharpoonup> (real \<times> real) list"

text \<open>What a call does: it returns a value, it prints a message and returns \<^verbatim>\<open>None\<close>, or
  it raises.\<close>

datatype message = InvalidNormalisationChoice | NoFiberRecording

datatype 'a outcome = Returned 'a | PrintedNone message | Raised error

fun raised :: "'a outcome \<Rightarrow> bool" where
  "raised (Raised e) = True"
| "raised _ = False"

fun returned :: "'a outcome \<Rightarrow> bool" where
  "returned (Returned r) = True"
| "returned _ = False"

text \<open>The \<^verbatim>\<open>window\<close> argument: the string \<^verbatim>\<open>'default'\<close> (or any other string) or a pair of
  durations.\<close>

datatype window_arg = WStr string | WPair real real

text \<open>\<^verbatim>\<open>scipy.integrate.simpson(y, x)\<close>, a parameter.\<close>

type_synonym integrator = "float list \<Rightarrow> real list \<Rightarrow> error + float"

subsection \<open>The perievent pipeline\<close>

definition bindE :: "error + 'a \<Rightarrow> ('a \<Rightarrow> error + 'b) \<Rightarrow> error + 'b" where
  "bindE m f = (case m of Inl e \<Rightarrow> Inl e | Inr x \<Rightarrow> f x)"

text \<open>Lines 52--59: \<^verbatim>\<open>'default'\<close> selects the session's default, any other selector is
  looked up in \<^verbatim>\<open>{'F': 'delta F/F', 'Z': 'Z-scores'}\<close>; \<open>None\<close> is the \<^verbatim>\<open>KeyError\<close>.\<close>

definition resolve_normalisation :: "rat_session \<Rightarrow> string \<Rightarrow> string option" where
  "resolve_normalisation self nrm =
     (if nrm = ''default'' then Some (default_norm self)
      else if nrm = ''F'' then Some ''delta F/F''
      else if nrm = ''Z'' then Some ''Z-scores''
      else None)"

text \<open>Lines 66--69 and the first line of \<^verbatim>\<open>_sample\<close>, which reads \<^verbatim>\<open>window[0]\<close> and
  subtracts it from a float: a string other than \<^verbatim>\<open>'default'\<close> raises there.\<close>

definition resolve_window :: "rat_session \<Rightarrow> window_arg \<Rightarrow> error + (real \<times> real)" where
  "resolve_window self win =
     (case win of
        WPair a b \<Rightarrow> Inr (a, b)
      | WStr w \<Rightarrow>
          if w = ''default'' then Inr (default_window self)
          else if w = [] then Inl IndexError
          else Inl TypeError)"

text \<open>Lines 72--95: the window cut from the two recording arrays at the sampler's
  indices, its segments, the two z-score arrays and the segment means. Every pre/post
  split is taken at the offset \<^verbatim>\<open>end_idx-event_idx\<close>. The sampling rate is
  \<^verbatim>\<open>1/np.diff(time).mean()\<close>: \<open>nan\<close> for fewer than two samples, \<open>inf\<close> for a zero mean.\<close>

definition cut_window ::
  "real \<Rightarrow> string \<Rightarrow> string \<Rightarrow> string \<Rightarrow> nat \<Rightarrow> real \<times> real \<Rightarrow> row list \<Rightarrow> row list
     \<Rightarrow> nat \<times> nat \<times> nat \<Rightarrow> perievent_window" where
  "cut_window ev ffile bfile nrm recno win recd raw idx =
     (case idx of (start_idx, event_idx, end_idx) \<Rightarrow>
        let d = slice start_idx (end_idx + 1) recd;
            rsig = map col1 (slice start_idx (end_idx + 1) raw);
            rctl = map col2 (slice start_idx (end_idx + 1) raw);
            sig = map col1 d;
            tm = map col0 d;
            k = int end_idx - int event_idx;
            pre = map col1 (slice_upto k d);
            z = standardise sig (np_mean pre) (np_std pre);
            rz = standardise sig (np_median pre) (median_abs_deviation pre)
        in \<lparr> event_time = ev,
             fiberfile = ffile,
             behaviorfile = bfile,
             normalisation = nrm,
             rec_number = recno,
             window = win,
             recordingdata = recd,
             rawdata = raw,
             data = d,
             raw_signal = rsig,
             raw_control = rctl,
             signal = sig,
             time = tm,
             sampling_rate =
               (case np_mean (np_diff tm) of
                  None \<Rightarrow> NaN
                | Some m \<Rightarrow> if m = 0 then PosInf else Fin (1 / m)),
             postevent = map col1 (slice_from k d),
             pre_raw_sig = slice_upto k rsig,
             post_raw_sig = slice_from k rsig,
             post_raw_ctrl = slice_from k rctl,
             post_time = map col0 (slice_from k d),
             preevent = pre,
             pre_time = map col0 (slice_upto k d),
             zscores = z,
             pre_zscores = slice_upto k z,
             post_zscores = slice_from k z,
             rob_zscores = rz,
             pre_Rzscores = slice_upto k rz,
             post_Rzscores = slice_from k rz,
             preAVG_Z = fmean (slice_upto k z),
             postAVG_Z = fmean (slice_from k z),
             preAVG_RZ = fmean (slice_upto k rz),
             postAVG_RZ = fmean (slice_from k rz) \<rparr>)"

text \<open>Lines 96--103: the eight areas, in the order of the source; the first call of the
  integrator that raises ends the computation.\<close>

definition areas :: "integrator \<Rightarrow> perievent_window \<Rightarrow> error + analysis" where
  "areas simpson w =
     bindE (simpson (map Some (pre_raw_sig w)) (pre_time w)) (\<lambda>a1.
     bindE (simpson (map Some (post_raw_sig w)) (post_time w)) (\<lambda>a2.
     bindE (simpson (map Some (preevent w)) (pre_time w)) (\<lambda>a3.
     bindE (simpson (map Some (postevent w)) (post_time w)) (\<lambda>a4.
     bindE (simpson (pre_zscores w) (pre_time w)) (\<lambda>a5.
     bindE (simpson (post_zscores w) (post_time w)) (\<lambda>a6.
     bindE (simpson (pre_Rzscores w) (pre_time w)) (\<lambda>a7.
     bindE (simpson (post_Rzscores w) (post_time w)) (\<lambda>a8.
       Inr (perievent_window.extend w (analysis.fields a1 a2 a3 a4 a5 a6 a7 a8))))))))))"

text \<open>\<^verbatim>\<open>RatSession.analyze_perievent(event_time, window, norm)\<close>: the outcome of the call
  and the session after it. The cache is written by the last statement only.\<close>

definition analyze_perievent ::
  "integrator \<Rightarrow> rat_session \<Rightarrow> real \<Rightarrow> window_arg \<Rightarrow> string
     \<Rightarrow> analysis outcome \<times> rat_session" where
  "analyze_perievent simpson self ev win nrm =
     (case resolve_normalisation self nrm of
        None \<Rightarrow> (PrintedNone InvalidNormalisationChoice, self)
      | Some normalisation_name \<Rightarrow>
     (case find_rec (fiber self) ev of
        Inl e \<Rightarrow> if e = IndexError then (PrintedNone NoFiberRecording, self)
                 else (Raised e, self)
      | Inr [] \<Rightarrow> (PrintedNone NoFiberRecording, self)
      | Inr (recno # _) \<Rightarrow>
     (case fiber_norm (fiber self) recno nrm of
        Inl e \<Rightarrow> (Raised e, self)
      | Inr recd \<Rightarrow>
     (case fiber_norm (fiber self) recno ''raw'' of
        Inl e \<Rightarrow> (Raised e, self)
      | Inr raw \<Rightarrow>
     (case resolve_window self win of
        Inl e \<Rightarrow> (Raised e, self)
      | Inr w \<Rightarrow>
     (case sample (map col0 recd) ev w of
        Inl e \<Rightarrow> (Raised e, self)
      | Inr idx \<Rightarrow>
     (case areas simpson
             (cut_window ev (fiber_filepath (fiber self)) (behavior_filepath (behavior self))
                normalisation_name recno w recd raw idx) of
        Inl e \<Rightarrow> (Raised e, self)
      | Inr res \<Rightarrow>
          (Returned res,
           self\<lparr>analyses := (analyses self)((recno, ev, w) \<mapsto> res)\<rparr>))))))))"

text \<open>\<^verbatim>\<open>RatSession.update_window(new_window)\<close>: three assignments in order; if a method of
  the behavioural data raises, the assignments made before it stay.\<close>

definition update_window :: "rat_session \<Rightarrow> real \<times> real \<Rightarrow> error option \<times> rat_session" where
  "update_window self new_window =
     (let s1 = self\<lparr>default_window := new_window\<rparr>
      in case events (behavior s1) True (default_window s1) of
           Inl e \<Rightarrow> (Some e, s1)
         | Inr ev \<Rightarrow>
            (let s2 = s1\<lparr>analyzable_events := ev\<rparr>
             in case intervals (behavior s2) True (default_window s2) of
                  Inl e \<Rightarrow> (Some e, s2)
                | Inr iv \<Rightarrow> (None, s2\<lparr>recorded_intervals := iv\<rparr>)))"

subsection \<open>The smoother\<close>


datatype smooth_window = SInt int | SStr string

datatype smoothed =
    WithTime "(float \<times> float) list"
  | Plain "float list"
  | Array2 "float list list"

fun smoothed_values :: "smoothed \<Rightarrow> float list" where
  "smoothed_values (WithTime ps) = map snd ps"
| "smoothed_values (Plain sm) = sm"
| "smoothed_values (Array2 rows) = concat rows"





text \<open>Lines 178--182: \<^verbatim>\<open>ceil(float(window[:-2])/1000 * self.sampling_rate)\<close> for a string
  that ends in \<^verbatim>\<open>'ms'\<close>, \<^verbatim>\<open>ceil(self.sampling_rate/4)\<close> for \<^verbatim>\<open>'default'\<close>, in float
  arithmetic. Any other string stays a string.\<close>

definition resolve_smooth_window ::
  "(string \<Rightarrow> xfloat option) \<Rightarrow> xfloat \<Rightarrow> smooth_window \<Rightarrow> error + smooth_window" where
  "resolve_smooth_window parse rate win =
     (case win of
        SInt n \<Rightarrow> Inr (SInt n)
      | SStr s \<Rightarrow>
          if slice_from (- 2) s = ''ms'' then
            (case parse (slice_upto (- 2) s) of
               None \<Rightarrow> Inl ValueError
             | Some ms \<Rightarrow>
                (case py_ceil (xmul (xdiv_const ms 1000) rate) of
                   Inl e \<Rightarrow> Inl e
                 | Inr n \<Rightarrow> Inr (SInt n)))
          else if s = ''default'' then
            (case py_ceil (xdiv_const rate 4) of
               Inl e \<Rightarrow> Inl e
             | Inr n \<Rightarrow> Inr (SInt n))
          else Inr (SStr s))"





subsection \<open>Properties of indices\<close>

text \<open>Index \<open>i\<close> of the time array holds a value whose computed distance from \<open>t\<close>, the
  float \<^verbatim>\<open>abs(time_array[i] - t)\<close>, is minimal; it is the first, or the last, index that
  does.\<close>

definition nearest :: "real list \<Rightarrow> xfloat \<Rightarrow> nat \<Rightarrow> bool" where
  "nearest time_array t i \<longleftrightarrow>
     i < length time_array
     \<and> (\<forall>x\<in>set time_array. distance (time_array ! i) t \<le> distance x t)"

definition first_nearest :: "real list \<Rightarrow> xfloat \<Rightarrow> nat \<Rightarrow> bool" where
  "first_nearest time_array t i \<longleftrightarrow>
     nearest time_array t i \<and> (\<forall>j\<in>set [0..<i]. \<not> nearest time_array t j)"

definition last_nearest :: "real list \<Rightarrow> xfloat \<Rightarrow> nat \<Rightarrow> bool" where
  "last_nearest time_array t i \<longleftrightarrow>
     nearest time_array t i \<and> (\<forall>j\<in>set [Suc i..<length time_array]. \<not> nearest time_array t j)"

subsection \<open>Example data\<close>

text \<open>An integrator for the examples: the composite trapezoid rule, which on two samples
  is the value \<^verbatim>\<open>scipy.integrate.simpson\<close> returns; like the library routine it rejects
  arrays of different lengths and passes a non-finite sample on to its result.\<close>

fun trapz :: "real list \<Rightarrow> real list \<Rightarrow> real" where
  "trapz (y0 # y1 # ys) (x0 # x1 # xs) = (x1 - x0) * (y0 + y1) / 2 + trapz (y1 # ys) (x1 # xs)"
| "trapz _ _ = 0"

definition trapezoid :: integrator where
  "trapezoid y x =
     (if length y \<noteq> length x then Inl ValueError
      else case finite_values y of None \<Rightarrow> Inr None | Some ys \<Rightarrow> Inr (Some (trapz ys x)))"

text \<open>A session with one recording of seven samples, one per second from 0 s to 6 s.\<close>

definition ramp_rows :: "row list" where
  "ramp_rows = [(0, 1, 1), (1, 3, 1), (2, 2, 1), (3, 4, 1), (4, 6, 1), (5, 5, 1), (6, 7, 1)]"

definition ramp_fiber :: fiber_data where
  "ramp_fiber = \<lparr> fiber_filepath = ''fiber.csv'',
                  find_rec = (\<lambda>t. if 0 \<le> t \<and> t \<le> 6 then Inr [0] else Inr []),
                  fiber_norm = (\<lambda>recno method. Inr ramp_rows) \<rparr>"

definition no_behavior :: behavioral_data where
  "no_behavior = \<lparr> behavior_filepath = ''behavior.dat'',
                   events = (\<lambda>recorded w. Inr Map.empty),
                   intervals = (\<lambda>recorded w. Inr Map.empty) \<rparr>"

definition ramp_session :: rat_session where
  "ramp_session = \<lparr> rat_ID = None, default_window = (1, 1), default_norm = ''delta F/F'',
                    behavior = no_behavior, fiber = ramp_fiber, analyses = Map.empty,
                    analyzable_events = Map.empty, recorded_intervals = Map.empty \<rparr>"


definition parse_example :: "string \<Rightarrow> xfloat option" where
  "parse_example s = (if s = ''70'' then Some (Fin 70) else if s = ''250'' then Some (Fin 250)
                      else None)"



section \<open>Verification\<close>

subsection \<open>Rounding\<close>

lemma rne_of_int: "rne (of_int k) = k"
  by (simp add: rne_def)

lemma floor_log2_eq:
  assumes "x \<noteq> 0" and "2 powi e \<le> \<bar>x\<bar>" and "\<bar>x\<bar> < 2 powi (e + 1)"
  shows "\<lfloor>log 2 \<bar>x\<bar>\<rfloor> = e"
proof -
  have pos: "0 < \<bar>x\<bar>" using assms(1) by simp
  have a: "(2::real) powr real_of_int e = 2 powi e"
    by (simp add: powr_real_of_int')
  have b: "(2::real) powr real_of_int (e + 1) = 2 powi (e + 1)"
    by (rule powr_real_of_int') simp_all
  have "(2::real) powr (real_of_int e + 1) = 2 powi (e + 1)"
    using b by simp
  with a assms(2,3) have "2 powr real_of_int e \<le> \<bar>x\<bar> \<and> \<bar>x\<bar> < 2 powr (real_of_int e + 1)"
    by simp
  then show ?thesis
    using floor_log_eq_powr_iff [OF pos, of 2 e] by simp
qed

lemma binade_eq:
  assumes "x \<noteq> 0" and "2 powi e \<le> \<bar>x\<bar>" and "\<bar>x\<bar> < 2 powi (e + 1)"
  shows "binade x = max e (- 1022)"
  unfolding binade_def floor_log2_eq [OF assms] ..

lemma round_nearest_at:
  assumes "x \<noteq> 0" and "2 powi e \<le> \<bar>x\<bar>" and "\<bar>x\<bar> < 2 powi (e + 1)" and "- 1022 \<le> e"
  shows "round_nearest x = of_int (rne (x / 2 powi (e - 52))) * 2 powi (e - 52)"
proof -
  have "binade x = e" using binade_eq [OF assms(1-3)] assms(4) by simp
  then show ?thesis using assms(1) by (simp add: round_nearest_def)
qed

lemma round_nearest_int:
  assumes "\<bar>k\<bar> < 2 ^ 53"
  shows "round_nearest (of_int k) = of_int k"
proof (cases "k = 0")
  case True
  then show ?thesis by (simp add: round_nearest_def)
next
  case False
  define x :: real where "x = of_int k"
  define e where "e = \<lfloor>log 2 \<bar>x\<bar>\<rfloor>"
  have x1: "1 \<le> \<bar>x\<bar>" using False by (simp add: x_def flip: of_int_abs)
  have xlt: "\<bar>x\<bar> < 2 ^ 53"
    using assms unfolding x_def by (metis of_int_abs of_int_less_numeral_power_cancel_iff)
  have e0: "0 \<le> e" unfolding e_def using x1 by simp
  have "log 2 \<bar>x\<bar> < 53"
    using x1 xlt by (subst log_less_iff) (simp_all add: powr_numeral)
  then have e52: "e \<le> 52" unfolding e_def by linarith
  have b: "binade x = e" unfolding binade_def e_def [symmetric] using e0 by simp
  define n where "n = nat (52 - e)"
  have q: "(2::real) powi (e - 52) = inverse (2 ^ n)"
    using e52 by (cases "e = 52") (simp_all add: power_int_def n_def power_one_over inverse_eq_divide)
  have "x / 2 powi (e - 52) = of_int (k * 2 ^ n)"
    unfolding q x_def by (simp add: field_simps)
  then have "rne (x / 2 powi (e - 52)) = k * 2 ^ n"
    by (simp only: rne_of_int)
  then have "round_nearest x = of_int (k * 2 ^ n) * inverse (2 ^ n)"
    using False unfolding round_nearest_def b q by (simp add: x_def)
  also have "\<dots> = x" by (simp add: x_def)
  finally show ?thesis by (simp add: x_def)
qed

lemma round64_int:
  assumes "\<bar>k\<bar> < 2 ^ 53"
  shows "round64 (of_int k) = Fin (of_int k)"
proof -
  have "\<bar>real_of_int k\<bar> < 2 ^ 53"
    using assms by (metis of_int_abs of_int_less_numeral_power_cancel_iff)
  then have "\<bar>real_of_int k\<bar> < 2 ^ 1024"
    by (rule less_trans) simp
  then show ?thesis
    unfolding round64_def round_nearest_int [OF assms] by (simp add: Let_def abs_less_iff)
qed

lemma round64_small [simp]:
  "round64 0 = Fin 0"
  "round64 1 = Fin 1"
  "round64 (- 1) = Fin (- 1)"
  "numeral m < (2::int) ^ 53 \<Longrightarrow> round64 (numeral m) = Fin (numeral m)"
  "numeral m < (2::int) ^ 53 \<Longrightarrow> round64 (- numeral m) = Fin (- numeral m)"
  using round64_int [of 0] round64_int [of 1] round64_int [of "- 1"]
    round64_int [of "numeral m"] round64_int [of "- numeral m"]
  by simp_all

lemma round64_at:
  assumes "x \<noteq> 0" and "2 powi e \<le> \<bar>x\<bar>" and "\<bar>x\<bar> < 2 powi (e + 1)" and "- 1022 \<le> e"
    and "of_int (rne (x / 2 powi (e - 52))) * 2 powi (e - 52) = r" and "\<bar>r\<bar> < 2 ^ 1024"
  shows "round64 x = Fin r"
  using assms(6) unfolding round64_def round_nearest_at [OF assms(1-4)] assms(5)
  by (simp add: Let_def abs_less_iff)

lemma round64_not_NaN: "round64 x \<noteq> NaN"
  by (simp add: round64_def Let_def)

subsection \<open>The sampler locates nearest samples\<close>

lemma filter_upt_hd:
  "filter P [0..<n] \<noteq> [] \<Longrightarrow>
     P (hd (filter P [0..<n])) \<and> hd (filter P [0..<n]) < n \<and> (\<forall>i < hd (filter P [0..<n]). \<not> P i)"
proof (induction n)
  case 0
  then show ?case by simp
next
  case (Suc n)
  show ?case
  proof (cases "filter P [0..<n] = []")
    case True
    then have none: "\<forall>i<n. \<not> P i" by (auto simp: filter_empty_conv)
    from Suc.prems True have "P n" by (auto split: if_splits)
    with True none show ?thesis by simp
  next
    case False
    have eq: "hd (filter P [0..<Suc n]) = hd (filter P [0..<n])" using False by simp
    note ih = Suc.IH [OF False]
    from ih have "hd (filter P [0..<n]) < n" by (rule conjunct2 [THEN conjunct1])
    then have "hd (filter P [0..<n]) < Suc n" by (rule less_SucI)
    with ih show ?thesis unfolding eq by blast
  qed
qed

lemma filter_upt_last:
  "filter P [0..<n] \<noteq> [] \<Longrightarrow>
     P (last (filter P [0..<n])) \<and> last (filter P [0..<n]) < n \<and>
     (\<forall>i. last (filter P [0..<n]) < i \<and> i < n \<longrightarrow> \<not> P i)"
proof (induction n)
  case 0
  then show ?case by simp
next
  case (Suc n)
  show ?case
  proof (cases "P n")
    case True
    then show ?thesis by auto
  next
    case False
    with Suc.prems have ne: "filter P [0..<n] \<noteq> []" by simp
    have eq: "last (filter P [0..<Suc n]) = last (filter P [0..<n])" using False by simp
    note ih = Suc.IH [OF ne]
    from ih have "last (filter P [0..<n]) < n" by (rule conjunct2 [THEN conjunct1])
    then have lt: "last (filter P [0..<n]) < Suc n" by (rule less_SucI)
    have "\<not> P i" if "last (filter P [0..<n]) < i \<and> i < Suc n" for i
    proof (cases "i = n")
      case True
      with False show ?thesis by simp
    next
      case False
      with that have "i < n" by simp
      with that ih show ?thesis by blast
    qed
    with ih lt show ?thesis unfolding eq by blast
  qed
qed

lemma py_min_Min:
  assumes "xs \<noteq> []"
  shows "py_min xs = Inr (Min (set xs))"
proof (cases xs)
  case Nil
  with assms show ?thesis by simp
next
  case (Cons y ys)
  have "fold min ys y = Min (set (y # ys))" by (rule Min.set_eq_fold [symmetric])
  with Cons show ?thesis by (simp add: py_min_def)
qed

lemma where_min_nonempty:
  assumes "ds \<noteq> []"
  shows "np_where_eq ds (Min (set ds)) \<noteq> []"
proof -
  have "Min (set ds) \<in> set ds" using assms by (intro Min_in) auto
  then obtain i where "i < length ds" "ds ! i = Min (set ds)"
    by (auto simp: in_set_conv_nth)
  then show ?thesis
    by (auto simp: np_where_eq_def filter_empty_conv)
qed

lemma Min_le_nth: "j < length ds \<Longrightarrow> Min (set ds) \<le> ds ! j"
  by (intro Min_le) auto

lemma nearest_index_first:
  assumes "ds \<noteq> []"
  shows "\<exists>i. nearest_index first_index ds = Inr i \<and> i < length ds
          \<and> (\<forall>j<length ds. ds ! i \<le> ds ! j) \<and> (\<forall>j<i. ds ! i < ds ! j)"
proof -
  define m where "m = Min (set ds)"
  define P where "P = (\<lambda>i. ds ! i = m)"
  have fne: "filter P [0..<length ds] \<noteq> []"
    using where_min_nonempty [OF assms] by (simp add: np_where_eq_def P_def m_def)
  define i where "i = hd (filter P [0..<length ds])"
  from filter_upt_hd [OF fne]
  have Pi: "P i" and il: "i < length ds" and before: "\<forall>j<i. \<not> P j"
    by (simp_all add: i_def)
  have "np_where_eq ds m = filter P [0..<length ds]"
    by (simp add: np_where_eq_def P_def)
  then have loc: "nearest_index first_index ds = Inr i"
    using fne unfolding nearest_index_def py_min_Min [OF assms] m_def [symmetric]
    by (cases "filter P [0..<length ds]") (simp_all add: first_index_def i_def)
  have mn: "\<forall>j<length ds. ds ! i \<le> ds ! j"
    using Pi Min_le_nth [of _ ds] by (simp add: P_def m_def)
  have strict: "\<forall>j<i. ds ! i < ds ! j"
  proof (intro allI impI)
    fix j assume j: "j < i"
    then have jl: "j < length ds" using il by simp
    have "ds ! j \<noteq> m" using before j by (simp add: P_def)
    moreover have "m \<le> ds ! j" using Min_le_nth [OF jl] by (simp add: m_def)
    moreover have "ds ! i = m" using Pi by (simp add: P_def)
    ultimately show "ds ! i < ds ! j" by simp
  qed
  from loc il mn strict show ?thesis by (intro exI [of _ i] conjI)
qed

lemma nearest_index_last:
  assumes "ds \<noteq> []"
  shows "\<exists>i. nearest_index last_index ds = Inr i \<and> i < length ds
          \<and> (\<forall>j<length ds. ds ! i \<le> ds ! j)
          \<and> (\<forall>j. i < j \<and> j < length ds \<longrightarrow> ds ! i < ds ! j)"
proof -
  define m where "m = Min (set ds)"
  define P where "P = (\<lambda>i. ds ! i = m)"
  have fne: "filter P [0..<length ds] \<noteq> []"
    using where_min_nonempty [OF assms] by (simp add: np_where_eq_def P_def m_def)
  define i where "i = last (filter P [0..<length ds])"
  from filter_upt_last [OF fne]
  have Pi: "P i" and il: "i < length ds"
    and after: "\<forall>j. i < j \<and> j < length ds \<longrightarrow> \<not> P j"
    by (simp_all add: i_def)
  have "np_where_eq ds m = filter P [0..<length ds]"
    by (simp add: np_where_eq_def P_def)
  then have loc: "nearest_index last_index ds = Inr i"
    using fne unfolding nearest_index_def py_min_Min [OF assms] m_def [symmetric]
    by (simp add: last_index_def i_def)
  have mn: "\<forall>j<length ds. ds ! i \<le> ds ! j"
    using Pi Min_le_nth [of _ ds] by (simp add: P_def m_def)
  have strict: "\<forall>j. i < j \<and> j < length ds \<longrightarrow> ds ! i < ds ! j"
  proof (intro allI impI)
    fix j assume j: "i < j \<and> j < length ds"
    then have jl: "j < length ds" by simp
    have "ds ! j \<noteq> m" using after j by (simp add: P_def)
    moreover have "m \<le> ds ! j" using Min_le_nth [OF jl] by (simp add: m_def)
    moreover have "ds ! i = m" using Pi by (simp add: P_def)
    ultimately show "ds ! i < ds ! j" by simp
  qed
  from loc il mn strict show ?thesis by (intro exI [of _ i] conjI)
qed

lemma locate_first_nearest:
  assumes "time_array \<noteq> []" and "t \<noteq> NaN"
  shows "\<exists>i. locate first_index time_array t = Inr i \<and> first_nearest time_array t i"
proof -
  define ds where "ds = abs_diff time_array t"
  have len: "length ds = length time_array" and ne: "ds \<noteq> []"
    using assms(1) by (simp_all add: ds_def abs_diff_def)
  have nth: "\<And>j. j < length time_array \<Longrightarrow> ds ! j = distance (time_array ! j) t"
    by (simp add: ds_def abs_diff_def)
  from nearest_index_first [OF ne] obtain i where
    ni: "nearest_index first_index ds = Inr i" and il: "i < length ds"
    and mn: "\<forall>j<length ds. ds ! i \<le> ds ! j" and st: "\<forall>j<i. ds ! i < ds ! j"
    by blast
  have loc: "locate first_index time_array t = Inr i"
    using assms(2) ni by (simp add: locate_def ds_def)
  have il': "i < length time_array" using il len by simp
  have near: "nearest time_array t i"
    unfolding nearest_def using il' mn len nth by (auto simp: in_set_conv_nth)
  have "\<not> nearest time_array t j" if "j < i" for j
  proof
    assume "nearest time_array t j"
    then have "distance (time_array ! j) t \<le> distance (time_array ! i) t"
      unfolding nearest_def using il' by simp
    moreover have "ds ! i < ds ! j" using st that by blast
    ultimately show False using nth il' that by simp
  qed
  with near have "first_nearest time_array t i"
    unfolding first_nearest_def by simp
  with loc show ?thesis by blast
qed

lemma locate_last_nearest:
  assumes "time_array \<noteq> []" and "t \<noteq> NaN"
  shows "\<exists>i. locate last_index time_array t = Inr i \<and> last_nearest time_array t i"
proof -
  define ds where "ds = abs_diff time_array t"
  have len: "length ds = length time_array" and ne: "ds \<noteq> []"
    using assms(1) by (simp_all add: ds_def abs_diff_def)
  have nth: "\<And>j. j < length time_array \<Longrightarrow> ds ! j = distance (time_array ! j) t"
    by (simp add: ds_def abs_diff_def)
  from nearest_index_last [OF ne] obtain i where
    ni: "nearest_index last_index ds = Inr i" and il: "i < length ds"
    and mn: "\<forall>j<length ds. ds ! i \<le> ds ! j"
    and st: "\<forall>j. i < j \<and> j < length ds \<longrightarrow> ds ! i < ds ! j"
    by blast
  have loc: "locate last_index time_array t = Inr i"
    using assms(2) ni by (simp add: locate_def ds_def)
  have il': "i < length time_array" using il len by simp
  have near: "nearest time_array t i"
    unfolding nearest_def using il' mn len nth by (auto simp: in_set_conv_nth)
  have "\<not> nearest time_array t j" if "i < j" "j < length time_array" for j
  proof
    assume "nearest time_array t j"
    then have "distance (time_array ! j) t \<le> distance (time_array ! i) t"
      unfolding nearest_def using il' by simp
    moreover have "ds ! i < ds ! j" using st that len by simp
    ultimately show False using nth il' that by simp
  qed
  with near have "last_nearest time_array t i"
    unfolding last_nearest_def by simp
  with loc show ?thesis by blast
qed

lemma sample_nearest:
  assumes "time_array \<noteq> []"
  shows "\<exists>start_idx event_idx end_idx.
           sample time_array ev win = Inr (start_idx, event_idx, end_idx)
         \<and> first_nearest time_array (fsub ev (fst win)) start_idx
         \<and> first_nearest time_array (Fin ev) event_idx
         \<and> last_nearest time_array (fadd ev (snd win)) end_idx"
proof -
  have s0: "fsub ev (fst win) \<noteq> NaN" and n0: "fadd ev (snd win) \<noteq> NaN"
    by (simp_all add: fsub_def fadd_def round64_not_NaN)
  from locate_first_nearest [OF assms s0] obtain s where
    s: "locate first_index time_array (fsub ev (fst win)) = Inr s"
       "first_nearest time_array (fsub ev (fst win)) s" by blast
  from locate_first_nearest [OF assms, of "Fin ev"] obtain e where
    e: "locate first_index time_array (Fin ev) = Inr e"
       "first_nearest time_array (Fin ev) e" by auto
  from locate_last_nearest [OF assms n0] obtain n where
    n: "locate last_index time_array (fadd ev (snd win)) = Inr n"
       "last_nearest time_array (fadd ev (snd win)) n" by blast
  have "sample time_array ev win = Inr (s, e, n)"
    by (simp add: sample_def Let_def s(1) e(1) n(1))
  with s(2) e(2) n(2) show ?thesis by blast
qed

text \<open>Evaluating the sampler: from the rounded bounds and the three arrays of
  distances.\<close>

lemma sample_from_distances:
  assumes "fsub ev pre = Fin s" and "fadd ev post = Fin n"
    and "abs_diff time_array (Fin s) = ds1" and "nearest_index first_index ds1 = Inr i"
    and "abs_diff time_array (Fin ev) = ds2" and "nearest_index first_index ds2 = Inr j"
    and "abs_diff time_array (Fin n) = ds3" and "nearest_index last_index ds3 = Inr k"
  shows "sample time_array ev (pre, post) = Inr (i, j, k)"
  using assms by (simp add: sample_def locate_def Let_def)

text \<open>
  C2, as stated, fails. On an empty time array \<^verbatim>\<open>min\<close> raises and no index is returned.
  And the distances that the code compares are rounded: for the time array \<open>[-1, 1]\<close>, the
  event time \<open>1 / 2 ^ 60\<close> and the window (0, 0) both computed distances are the float 1,
  and the start and event indices returned are 0, although sample 1 is strictly nearer to
  the target.
\<close>

theorem sample_nearest_fails_on_rounding:
  "sample [] 0 (1, 1) = Inl ValueError
   \<and> sample [- 1, 1] (1 / 2 ^ 60) (0, 0) = Inr (0, 0, 1)
   \<and> \<bar>1 - 1 / 2 ^ 60\<bar> < \<bar>- 1 - 1 / 2 ^ 60 :: real\<bar>"
proof -
  have empty: "sample [] 0 (1, 1) = Inl ValueError"
    by (simp add: sample_def locate_def nearest_index_def abs_diff_def py_min_def Let_def)
  have t: "round64 (1 / 2 ^ 60) = Fin (1 / 2 ^ 60)"
    by (rule round64_at [where e = "- 60"]) (simp_all add: rne_def)
  have a: "round64 (- 1 - 1 / 2 ^ 60) = Fin (- 1)"
    by (rule round64_at [where e = 0]) (simp_all add: rne_def)
  have b: "round64 (1 - 1 / 2 ^ 60) = Fin 1"
    by (rule round64_at [where e = "- 1"]) (simp_all add: rne_def)
  have "distance (- 1) (Fin (1 / 2 ^ 60)) = \<bar>- 1\<bar>"
    by (simp only: distance_def fsub_def xfloat.case a)
  then have da: "distance (- 1) (Fin (1 / 2 ^ 60)) = 1" by simp
  have "distance 1 (Fin (1 / 2 ^ 60)) = \<bar>1\<bar>"
    by (simp only: distance_def fsub_def xfloat.case b)
  then have db: "distance 1 (Fin (1 / 2 ^ 60)) = 1" by simp
  have ds: "abs_diff [- 1, 1] (Fin (1 / 2 ^ 60)) = [1, 1]"
    by (simp only: abs_diff_def list.map da db)
  have f: "nearest_index first_index [1, 1] = Inr 0"
    and l: "nearest_index last_index [1, 1] = Inr 1"
    by code_simp+
  have "sample [- 1, 1] (1 / 2 ^ 60) (0, 0) = Inr (0, 0, 1)"
  proof (rule sample_from_distances [OF _ _ ds f ds f ds l])
    show "fsub (1 / 2 ^ 60) 0 = Fin (1 / 2 ^ 60)" by (simp only: fsub_def diff_zero t)
    show "fadd (1 / 2 ^ 60) 0 = Fin (1 / 2 ^ 60)" by (simp only: fadd_def add_0_right t)
  qed
  with empty show ?thesis by simp
qed

text \<open>
  C2, amended. For every non-empty time array of finite floats and every target time,
  the sampler returns an index whose computed distance from the target (the float
  \<^verbatim>\<open>abs(time_array[i] - target)\<close>) is the minimum of the computed distances; among
  several such indices it returns the first for the window start and the last for the
  window end.
\<close>

theorem sample_returns_nearest_computed:
  assumes "time_array \<noteq> []"
  shows "\<exists>start_idx event_idx end_idx.
           sample time_array ev (pre, post) = Inr (start_idx, event_idx, end_idx)
         \<and> first_nearest time_array (fsub ev pre) start_idx
         \<and> nearest time_array (Fin ev) event_idx
         \<and> last_nearest time_array (fadd ev post) end_idx"
  using sample_nearest [OF assms, of ev "(pre, post)"]
  by (auto simp: first_nearest_def)

theorem sample_returns_nearest_computed_witness:
  "[0, 2, 4, 6 :: real] \<noteq> []
   \<and> sample [0, 2, 4, 6] 3 (2, 2) = Inr (0, 1, 3)
   \<and> first_nearest [0, 2, 4, 6] (fsub 3 2) 0
   \<and> last_nearest [0, 2, 4, 6] (fadd 3 2) 3"
proof -
  have d1: "abs_diff [0, 2, 4, 6] (Fin 1) = [1, 1, 3, 5]"
    and d2: "abs_diff [0, 2, 4, 6] (Fin 3) = [3, 1, 1, 3]"
    and d3: "abs_diff [0, 2, 4, 6] (Fin 5) = [5, 3, 1, 1]"
    by (simp_all add: abs_diff_def distance_def fsub_def)
  have i1: "nearest_index first_index [1, 1, 3, 5] = Inr 0"
    and i2: "nearest_index first_index [3, 1, 1, 3] = Inr 1"
    and i3: "nearest_index last_index [5, 3, 1, 1] = Inr 3"
    by code_simp+
  have v: "sample [0, 2, 4, 6] 3 (2, 2) = Inr (0, 1, 3)"
    by (rule sample_from_distances [OF _ _ d1 i1 d2 i2 d3 i3]) (simp_all add: fsub_def fadd_def)
  from sample_returns_nearest_computed [of "[0, 2, 4, 6]" 3 2 2] v
  show ?thesis by simp
qed

text \<open>
  C3. The claim is the invariant \<open>start_idx \<le> event_idx \<le> end_idx\<close> for every strictly
  increasing non-empty time array and every window with non-negative durations. The
  code breaks it where rounding makes two computed distances equal: for the time array
  \<open>[0, 1 / 2 ^ 54, 5 / 2]\<close>, the event time 1 and the window \<open>(1 - 1 / 2 ^ 53, 0)\<close>, all of
  them floats, the start is \<open>1 / 2 ^ 53\<close> and sample 1 is its nearest; the distances of
  samples 0 and 1 from the event are both rounded to 1 and the first is taken. The
  sampler returns (1, 0, 1): the start index lies after the event index.
\<close>

theorem sample_start_after_event:
  "sorted_wrt (<) [0, 1 / 2 ^ 54, 5 / 2 :: real]
   \<and> [0, 1 / 2 ^ 54, 5 / 2 :: real] \<noteq> []
   \<and> (0::real) \<le> 1 - 1 / 2 ^ 53 \<and> (0::real) \<le> 0
   \<and> sample [0, 1 / 2 ^ 54, 5 / 2] 1 (1 - 1 / 2 ^ 53, 0) = Inr (1, 0, 1)"
proof -
  have s: "round64 (1 / 2 ^ 53) = Fin (1 / 2 ^ 53)"
    by (rule round64_at [where e = "- 53"]) (simp_all add: rne_def)
  have s0: "round64 (- (1 / 2 ^ 53)) = Fin (- (1 / 2 ^ 53))"
    by (rule round64_at [where e = "- 53"]) (simp_all add: rne_def)
  have s1: "round64 (1 / 2 ^ 54 - 1 / 2 ^ 53) = Fin (- (1 / 2 ^ 54))"
    by (rule round64_at [where e = "- 54"]) (simp_all add: rne_def)
  have s2: "round64 (5 / 2 - 1 / 2 ^ 53) = Fin (5 / 2)"
    by (rule round64_at [where e = 1]) (simp_all add: rne_def)
  have e1: "round64 (1 / 2 ^ 54 - 1) = Fin (- 1)"
    by (rule round64_at [where e = "- 1"]) (simp_all add: rne_def)
  have e2: "round64 (5 / 2 - 1) = Fin (3 / 2)"
    by (rule round64_at [where e = 0]) (simp_all add: rne_def)
  have "distance 0 (Fin (1 / 2 ^ 53)) = \<bar>- (1 / 2 ^ 53)\<bar>"
    by (simp only: distance_def fsub_def xfloat.case diff_0 s0)
  then have a0: "distance 0 (Fin (1 / 2 ^ 53)) = 1 / 2 ^ 53" by simp
  have "distance (1 / 2 ^ 54) (Fin (1 / 2 ^ 53)) = \<bar>- (1 / 2 ^ 54)\<bar>"
    by (simp only: distance_def fsub_def xfloat.case s1)
  then have a1: "distance (1 / 2 ^ 54) (Fin (1 / 2 ^ 53)) = 1 / 2 ^ 54" by simp
  have "distance (5 / 2) (Fin (1 / 2 ^ 53)) = \<bar>5 / 2\<bar>"
    by (simp only: distance_def fsub_def xfloat.case s2)
  then have a2: "distance (5 / 2) (Fin (1 / 2 ^ 53)) = 5 / 2" by simp
  have d1: "abs_diff [0, 1 / 2 ^ 54, 5 / 2] (Fin (1 / 2 ^ 53)) = [1 / 2 ^ 53, 1 / 2 ^ 54, 5 / 2]"
    by (simp only: abs_diff_def list.map a0 a1 a2)
  have b0: "distance 0 (Fin 1) = 1"
    by (simp add: distance_def fsub_def)
  have "distance (1 / 2 ^ 54) (Fin 1) = \<bar>- 1\<bar>"
    by (simp only: distance_def fsub_def xfloat.case e1)
  then have b1: "distance (1 / 2 ^ 54) (Fin 1) = 1" by simp
  have "distance (5 / 2) (Fin 1) = \<bar>3 / 2\<bar>"
    by (simp only: distance_def fsub_def xfloat.case e2)
  then have b2: "distance (5 / 2) (Fin 1) = 3 / 2" by simp
  have d2: "abs_diff [0, 1 / 2 ^ 54, 5 / 2] (Fin 1) = [1, 1, 3 / 2]"
    by (simp only: abs_diff_def list.map b0 b1 b2)
  have i1: "nearest_index first_index [1 / 2 ^ 53, 1 / 2 ^ 54, 5 / 2] = Inr 1"
    and i2: "nearest_index first_index [1, 1, 3 / 2] = Inr 0"
    and i3: "nearest_index last_index [1, 1, 3 / 2] = Inr 1"
    by code_simp+
  have "sample [0, 1 / 2 ^ 54, 5 / 2] 1 (1 - 1 / 2 ^ 53, 0) = Inr (1, 0, 1)"
  proof (rule sample_from_distances [OF _ _ d1 i1 d2 i2 d2 i3])
    have "(1::real) - (1 - 1 / 2 ^ 53) = 1 / 2 ^ 53" by simp
    then show "fsub 1 (1 - 1 / 2 ^ 53) = Fin (1 / 2 ^ 53)"
      by (simp only: fsub_def s)
    show "fadd 1 0 = Fin 1" by (simp add: fadd_def)
  qed
  then show ?thesis by simp
qed

subsection \<open>Records and segments\<close>

lemma bindE_Inr: "bindE m f = Inr r \<longleftrightarrow> (\<exists>x. m = Inr x \<and> f x = Inr r)"
  by (cases m) (simp_all add: bindE_def)

lemma extend_segments:
  "pre_raw_sig (perievent_window.extend w m) = pre_raw_sig w"
  "post_raw_sig (perievent_window.extend w m) = post_raw_sig w"
  "preevent (perievent_window.extend w m) = preevent w"
  "postevent (perievent_window.extend w m) = postevent w"
  "pre_zscores (perievent_window.extend w m) = pre_zscores w"
  "post_zscores (perievent_window.extend w m) = post_zscores w"
  "pre_Rzscores (perievent_window.extend w m) = pre_Rzscores w"
  "post_Rzscores (perievent_window.extend w m) = post_Rzscores w"
  "pre_time (perievent_window.extend w m) = pre_time w"
  "post_time (perievent_window.extend w m) = post_time w"
  "time (perievent_window.extend w m) = time w"
  "signal (perievent_window.extend w m) = signal w"
  "zscores (perievent_window.extend w m) = zscores w"
  "data (perievent_window.extend w m) = data w"
  by (cases w, simp add: perievent_window.defs)+

lemma extend_areas:
  "pre_raw_AUC (perievent_window.extend w (analysis.fields a1 a2 a3 a4 a5 a6 a7 a8)) = a1"
  "post_raw_AUC (perievent_window.extend w (analysis.fields a1 a2 a3 a4 a5 a6 a7 a8)) = a2"
  "preAUC (perievent_window.extend w (analysis.fields a1 a2 a3 a4 a5 a6 a7 a8)) = a3"
  "postAUC (perievent_window.extend w (analysis.fields a1 a2 a3 a4 a5 a6 a7 a8)) = a4"
  "preZ_AUC (perievent_window.extend w (analysis.fields a1 a2 a3 a4 a5 a6 a7 a8)) = a5"
  "postZ_AUC (perievent_window.extend w (analysis.fields a1 a2 a3 a4 a5 a6 a7 a8)) = a6"
  "preRZ_AUC (perievent_window.extend w (analysis.fields a1 a2 a3 a4 a5 a6 a7 a8)) = a7"
  "postRZ_AUC (perievent_window.extend w (analysis.fields a1 a2 a3 a4 a5 a6 a7 a8)) = a8"
  by (cases w, simp add: perievent_window.defs analysis.defs)+

lemma cut_window_segments:
  "data (cut_window ev ff bf nn recno w recd raw (si, ei, ni)) = slice si (ni + 1) recd"
  "time (cut_window ev ff bf nn recno w recd raw (si, ei, ni)) = map col0 (slice si (ni + 1) recd)"
  "signal (cut_window ev ff bf nn recno w recd raw (si, ei, ni)) = map col1 (slice si (ni + 1) recd)"
  "pre_time (cut_window ev ff bf nn recno w recd raw (si, ei, ni))
     = map col0 (slice_upto (int ni - int ei) (slice si (ni + 1) recd))"
  "post_time (cut_window ev ff bf nn recno w recd raw (si, ei, ni))
     = map col0 (slice_from (int ni - int ei) (slice si (ni + 1) recd))"
  "preevent (cut_window ev ff bf nn recno w recd raw (si, ei, ni))
     = map col1 (slice_upto (int ni - int ei) (slice si (ni + 1) recd))"
  "postevent (cut_window ev ff bf nn recno w recd raw (si, ei, ni))
     = map col1 (slice_from (int ni - int ei) (slice si (ni + 1) recd))"
  "pre_raw_sig (cut_window ev ff bf nn recno w recd raw (si, ei, ni))
     = slice_upto (int ni - int ei) (map col1 (slice si (ni + 1) raw))"
  "post_raw_sig (cut_window ev ff bf nn recno w recd raw (si, ei, ni))
     = slice_from (int ni - int ei) (map col1 (slice si (ni + 1) raw))"
  by (simp_all add: cut_window_def Let_def)

lemma cut_window_zscores:
  "zscores (cut_window ev ff bf nn recno w recd raw (si, ei, ni))
     = standardise (map col1 (slice si (ni + 1) recd))
         (np_mean (map col1 (slice_upto (int ni - int ei) (slice si (ni + 1) recd))))
         (np_std (map col1 (slice_upto (int ni - int ei) (slice si (ni + 1) recd))))"
  "pre_zscores (cut_window ev ff bf nn recno w recd raw (si, ei, ni))
     = slice_upto (int ni - int ei) (zscores (cut_window ev ff bf nn recno w recd raw (si, ei, ni)))"
  "post_zscores (cut_window ev ff bf nn recno w recd raw (si, ei, ni))
     = slice_from (int ni - int ei) (zscores (cut_window ev ff bf nn recno w recd raw (si, ei, ni)))"
  "pre_Rzscores (cut_window ev ff bf nn recno w recd raw (si, ei, ni))
     = slice_upto (int ni - int ei) (rob_zscores (cut_window ev ff bf nn recno w recd raw (si, ei, ni)))"
  "post_Rzscores (cut_window ev ff bf nn recno w recd raw (si, ei, ni))
     = slice_from (int ni - int ei) (rob_zscores (cut_window ev ff bf nn recno w recd raw (si, ei, ni)))"
  by (simp_all add: cut_window_def Let_def)

subsection \<open>The areas and the outcome of a call\<close>

lemma areas_Inr:
  assumes "areas I w = Inr r"
  shows "\<exists>a1 a2 a3 a4 a5 a6 a7 a8.
           I (map Some (pre_raw_sig w)) (pre_time w) = Inr a1
         \<and> I (map Some (post_raw_sig w)) (post_time w) = Inr a2
         \<and> I (map Some (preevent w)) (pre_time w) = Inr a3
         \<and> I (map Some (postevent w)) (post_time w) = Inr a4
         \<and> I (pre_zscores w) (pre_time w) = Inr a5
         \<and> I (post_zscores w) (post_time w) = Inr a6
         \<and> I (pre_Rzscores w) (pre_time w) = Inr a7
         \<and> I (post_Rzscores w) (post_time w) = Inr a8
         \<and> r = perievent_window.extend w (analysis.fields a1 a2 a3 a4 a5 a6 a7 a8)"
  using assms unfolding areas_def bindE_Inr by blast

lemma trapezoid_returns: "length y = length x \<Longrightarrow> \<exists>a. trapezoid y x = Inr a"
  by (simp add: trapezoid_def split: option.splits)

lemma areas_trapezoid:
  assumes "length (pre_raw_sig w) = length (pre_time w)"
    and "length (post_raw_sig w) = length (post_time w)"
    and "length (preevent w) = length (pre_time w)"
    and "length (postevent w) = length (post_time w)"
    and "length (pre_zscores w) = length (pre_time w)"
    and "length (post_zscores w) = length (post_time w)"
    and "length (pre_Rzscores w) = length (pre_time w)"
    and "length (post_Rzscores w) = length (post_time w)"
  shows "\<exists>r. areas trapezoid w = Inr r"
proof -
  from assms(1) obtain a1 where a1: "trapezoid (map Some (pre_raw_sig w)) (pre_time w) = Inr a1"
    using trapezoid_returns [of "map Some (pre_raw_sig w)" "pre_time w"] by auto
  from assms(2) obtain a2 where a2: "trapezoid (map Some (post_raw_sig w)) (post_time w) = Inr a2"
    using trapezoid_returns [of "map Some (post_raw_sig w)" "post_time w"] by auto
  from assms(3) obtain a3 where a3: "trapezoid (map Some (preevent w)) (pre_time w) = Inr a3"
    using trapezoid_returns [of "map Some (preevent w)" "pre_time w"] by auto
  from assms(4) obtain a4 where a4: "trapezoid (map Some (postevent w)) (post_time w) = Inr a4"
    using trapezoid_returns [of "map Some (postevent w)" "post_time w"] by auto
  from assms(5) obtain a5 where a5: "trapezoid (pre_zscores w) (pre_time w) = Inr a5"
    using trapezoid_returns by blast
  from assms(6) obtain a6 where a6: "trapezoid (post_zscores w) (post_time w) = Inr a6"
    using trapezoid_returns by blast
  from assms(7) obtain a7 where a7: "trapezoid (pre_Rzscores w) (pre_time w) = Inr a7"
    using trapezoid_returns by blast
  from assms(8) obtain a8 where a8: "trapezoid (post_Rzscores w) (post_time w) = Inr a8"
    using trapezoid_returns by blast
  show ?thesis
    by (simp add: areas_def bindE_def a1 a2 a3 a4 a5 a6 a7 a8)
qed

lemma length_standardise: "length (standardise xs c s) = length xs"
  by (simp add: standardise_def)

text \<open>With the normalised and the raw array of one length, every segment is as long as
  its time sub-array, and the example integrator returns a value for each.\<close>

lemma areas_trapezoid_cut_window:
  assumes "length raw = length recd"
  shows "\<exists>r. areas trapezoid (cut_window ev ff bf nn recno w recd raw (si, ei, ni)) = Inr r"
proof (rule areas_trapezoid)
  let ?k = "int ni - int ei"
  let ?d = "slice si (ni + 1) recd"
  have lr: "length (slice si (ni + 1) raw) = length ?d"
    using assms by (simp add: slice_def)
  show "length (pre_raw_sig (cut_window ev ff bf nn recno w recd raw (si, ei, ni)))
      = length (pre_time (cut_window ev ff bf nn recno w recd raw (si, ei, ni)))"
    using lr by (simp add: cut_window_segments slice_upto_def)
  show "length (post_raw_sig (cut_window ev ff bf nn recno w recd raw (si, ei, ni)))
      = length (post_time (cut_window ev ff bf nn recno w recd raw (si, ei, ni)))"
    using lr by (simp add: cut_window_segments slice_from_def)
  show "length (preevent (cut_window ev ff bf nn recno w recd raw (si, ei, ni)))
      = length (pre_time (cut_window ev ff bf nn recno w recd raw (si, ei, ni)))"
    by (simp add: cut_window_segments)
  show "length (postevent (cut_window ev ff bf nn recno w recd raw (si, ei, ni)))
      = length (post_time (cut_window ev ff bf nn recno w recd raw (si, ei, ni)))"
    by (simp add: cut_window_segments)
  show "length (pre_zscores (cut_window ev ff bf nn recno w recd raw (si, ei, ni)))
      = length (pre_time (cut_window ev ff bf nn recno w recd raw (si, ei, ni)))"
    by (simp add: cut_window_def Let_def slice_upto_def length_standardise)
  show "length (post_zscores (cut_window ev ff bf nn recno w recd raw (si, ei, ni)))
      = length (post_time (cut_window ev ff bf nn recno w recd raw (si, ei, ni)))"
    by (simp add: cut_window_def Let_def slice_from_def length_standardise)
  show "length (pre_Rzscores (cut_window ev ff bf nn recno w recd raw (si, ei, ni)))
      = length (pre_time (cut_window ev ff bf nn recno w recd raw (si, ei, ni)))"
    by (simp add: cut_window_def Let_def slice_upto_def length_standardise)
  show "length (post_Rzscores (cut_window ev ff bf nn recno w recd raw (si, ei, ni)))
      = length (post_time (cut_window ev ff bf nn recno w recd raw (si, ei, ni)))"
    by (simp add: cut_window_def Let_def slice_from_def length_standardise)
qed

lemma analyze_perievent_Returned:
  assumes "analyze_perievent I self ev win nrm = (Returned r, self')"
  shows "\<exists>nn recno rest recd raw w idx.
            resolve_normalisation self nrm = Some nn
          \<and> find_rec (fiber self) ev = Inr (recno # rest)
          \<and> fiber_norm (fiber self) recno nrm = Inr recd
          \<and> fiber_norm (fiber self) recno ''raw'' = Inr raw
          \<and> resolve_window self win = Inr w
          \<and> sample (map col0 recd) ev w = Inr idx
          \<and> areas I (cut_window ev (fiber_filepath (fiber self)) (behavior_filepath (behavior self))
                nn recno w recd raw idx) = Inr r
          \<and> self' = self\<lparr>analyses := (analyses self)((recno, ev, w) \<mapsto> r)\<rparr>"
  using assms unfolding analyze_perievent_def
  by (auto split: option.splits sum.splits list.splits if_splits)

lemma analyze_perievent_unchanged:
  assumes "\<not> returned (fst (analyze_perievent I self ev win nrm))"
  shows "snd (analyze_perievent I self ev win nrm) = self"
  using assms unfolding analyze_perievent_def
  by (auto split: option.splits sum.splits list.splits if_splits)

text \<open>The example session: the call on the seven-sample recording, unfolded up to the
  areas.\<close>

lemma ramp_sample:
  "sample (map col0 ramp_rows) 2 (1, 3) = Inr (1, 2, 5)"
  "sample (map col0 ramp_rows) 2 (1, 2) = Inr (1, 2, 4)"
  "sample (map col0 ramp_rows) 2 (1, 1) = Inr (1, 2, 3)"
proof -
  have tm: "map col0 ramp_rows = [0, 1, 2, 3, 4, 5, 6]"
    by (simp add: ramp_rows_def col0_def)
  have d1: "abs_diff [0, 1, 2, 3, 4, 5, 6] (Fin 1) = [1, 0, 1, 2, 3, 4, 5]"
    and d2: "abs_diff [0, 1, 2, 3, 4, 5, 6] (Fin 2) = [2, 1, 0, 1, 2, 3, 4]"
    and d3: "abs_diff [0, 1, 2, 3, 4, 5, 6] (Fin 3) = [3, 2, 1, 0, 1, 2, 3]"
    and d4: "abs_diff [0, 1, 2, 3, 4, 5, 6] (Fin 4) = [4, 3, 2, 1, 0, 1, 2]"
    and d5: "abs_diff [0, 1, 2, 3, 4, 5, 6] (Fin 5) = [5, 4, 3, 2, 1, 0, 1]"
    by (simp_all add: abs_diff_def distance_def fsub_def)
  have i1: "nearest_index first_index [1, 0, 1, 2, 3, 4, 5] = Inr 1"
    and i2: "nearest_index first_index [2, 1, 0, 1, 2, 3, 4] = Inr 2"
    and i3: "nearest_index last_index [3, 2, 1, 0, 1, 2, 3] = Inr 3"
    and i4: "nearest_index last_index [4, 3, 2, 1, 0, 1, 2] = Inr 4"
    and i5: "nearest_index last_index [5, 4, 3, 2, 1, 0, 1] = Inr 5"
    by code_simp+
  show "sample (map col0 ramp_rows) 2 (1, 3) = Inr (1, 2, 5)"
    unfolding tm
    by (rule sample_from_distances [OF _ _ d1 i1 d2 i2 d5 i5]) (simp_all add: fsub_def fadd_def)
  show "sample (map col0 ramp_rows) 2 (1, 2) = Inr (1, 2, 4)"
    unfolding tm
    by (rule sample_from_distances [OF _ _ d1 i1 d2 i2 d4 i4]) (simp_all add: fsub_def fadd_def)
  show "sample (map col0 ramp_rows) 2 (1, 1) = Inr (1, 2, 3)"
    unfolding tm
    by (rule sample_from_distances [OF _ _ d1 i1 d2 i2 d3 i3]) (simp_all add: fsub_def fadd_def)
qed

lemma analyze_ramp:
  assumes "nrm = ''F'' \<or> nrm = ''Z'' \<or> nrm = ''default''"
    and "0 \<le> ev" and "ev \<le> 6"
    and "sample (map col0 ramp_rows) ev (a, b) = Inr idx"
    and "areas I (cut_window ev ''fiber.csv'' ''behavior.dat''
            (the (resolve_normalisation ramp_session nrm)) 0 (a, b) ramp_rows ramp_rows idx) = Inr r"
  shows "analyze_perievent I ramp_session ev (WPair a b) nrm
       = (Returned r, ramp_session\<lparr>analyses := (analyses ramp_session)((0, ev, (a, b)) \<mapsto> r)\<rparr>)"
proof -
  have f: "fiber ramp_session = ramp_fiber" "behavior ramp_session = no_behavior"
    by (simp_all add: ramp_session_def)
  have g: "find_rec ramp_fiber ev = Inr [0]" "fiber_norm ramp_fiber 0 nrm = Inr ramp_rows"
    "fiber_norm ramp_fiber 0 ''raw'' = Inr ramp_rows" "fiber_filepath ramp_fiber = ''fiber.csv''"
    "behavior_filepath no_behavior = ''behavior.dat''"
    using assms(2,3) by (simp_all add: ramp_fiber_def no_behavior_def)
  from assms(1) obtain nn where nn: "resolve_normalisation ramp_session nrm = Some nn"
    by (auto simp: resolve_normalisation_def)
  show ?thesis
    using assms(4,5)
    by (simp add: analyze_perievent_def f g nn resolve_window_def)
qed

subsection \<open>The split point, failures and the cache\<close>

lemma ramp_slices:
  "slice 1 (5 + 1) ramp_rows = [(1, 3, 1), (2, 2, 1), (3, 4, 1), (4, 6, 1), (5, 5, 1)]"
  "slice 1 (4 + 1) ramp_rows = [(1, 3, 1), (2, 2, 1), (3, 4, 1), (4, 6, 1)]"
  by (simp_all add: slice_def ramp_rows_def)

lemma extend_inputs:
  "recordingdata (perievent_window.extend w m) = recordingdata w"
  "window (perievent_window.extend w m) = window w"
  "raw_signal (perievent_window.extend w m) = raw_signal w"
  "rob_zscores (perievent_window.extend w m) = rob_zscores w"
  by (cases w, simp add: perievent_window.defs)+

text \<open>What the code does on every input: all the sub-arrays of a returned analysis are
  split at the one offset \<open>end_idx - event_idx\<close> of the sampler's indices.\<close>

lemma segments_split_at_end_minus_event:
  assumes "analyze_perievent I self ev win nrm = (Returned r, self')"
  shows "\<exists>start_idx event_idx end_idx.
           sample (map col0 (recordingdata r)) ev (window r) = Inr (start_idx, event_idx, end_idx)
         \<and> time r = map col0 (slice start_idx (end_idx + 1) (recordingdata r))
         \<and> pre_time r = slice_upto (int end_idx - int event_idx) (time r)
         \<and> post_time r = slice_from (int end_idx - int event_idx) (time r)
         \<and> preevent r = slice_upto (int end_idx - int event_idx) (signal r)
         \<and> postevent r = slice_from (int end_idx - int event_idx) (signal r)
         \<and> pre_raw_sig r = slice_upto (int end_idx - int event_idx) (raw_signal r)
         \<and> post_raw_sig r = slice_from (int end_idx - int event_idx) (raw_signal r)
         \<and> pre_zscores r = slice_upto (int end_idx - int event_idx) (zscores r)
         \<and> post_zscores r = slice_from (int end_idx - int event_idx) (zscores r)
         \<and> pre_Rzscores r = slice_upto (int end_idx - int event_idx) (rob_zscores r)
         \<and> post_Rzscores r = slice_from (int end_idx - int event_idx) (rob_zscores r)"
proof -
  from analyze_perievent_Returned [OF assms] obtain nn recno recd raw w idx where
    smp: "sample (map col0 recd) ev w = Inr idx"
    and ar: "areas I (cut_window ev (fiber_filepath (fiber self)) (behavior_filepath (behavior self))
                nn recno w recd raw idx) = Inr r"
    by blast
  obtain si ei ni where idx: "idx = (si, ei, ni)" by (cases idx) auto
  let ?w = "cut_window ev (fiber_filepath (fiber self)) (behavior_filepath (behavior self))
                nn recno w recd raw (si, ei, ni)"
  from areas_Inr [OF ar] obtain m where m: "r = perievent_window.extend ?w m"
    unfolding idx by blast
  have inp: "recordingdata ?w = recd" "window ?w = w"
    "raw_signal ?w = map col1 (slice si (ni + 1) raw)"
    by (simp_all add: cut_window_def Let_def)
  have fm: "slice_from k (map f xs) = map f (slice_from k xs)" for k f and xs :: "row list"
    by (simp add: slice_from_def drop_map)
  have um: "slice_upto k (map f xs) = map f (slice_upto k xs)" for k f and xs :: "row list"
    by (simp add: slice_upto_def take_map)
  show ?thesis
    unfolding m extend_segments extend_inputs inp cut_window_zscores cut_window_segments
    using smp unfolding idx by (simp add: um fm)
qed

text \<open>
  C1. The claim puts the split between the pre-event and the post-event segment at the
  event's offset in the slice, \<open>event_idx - start_idx\<close>. The code splits every sub-array
  at \<open>end_idx - event_idx\<close>. On the seven-sample recording, for the event at 2 s and the
  window (1 s, 3 s), the sampler returns the indices (1, 2, 5): the event is at offset 1 of
  the slice, and the code splits at offset 3, so that the pre-event segment holds the
  event sample and the one after it.
\<close>

theorem analyze_perievent_splits_at_end_minus_event:
  "sample (map col0 ramp_rows) 2 (1, 3) = Inr (1, 2, 5)
   \<and> (case fst (analyze_perievent trapezoid ramp_session 2 (WPair 1 3) ''F'') of
        Returned r \<Rightarrow>
          time r = [1, 2, 3, 4, 5]
          \<and> pre_time r = [1, 2, 3] \<and> post_time r = [4, 5]
          \<and> preevent r = [3, 2, 4] \<and> postevent r = [6, 5]
          \<and> pre_raw_sig r = [3, 2, 4] \<and> post_raw_sig r = [6, 5]
      | PrintedNone m \<Rightarrow> False
      | Raised e \<Rightarrow> False)"
proof -
  let ?w = "cut_window 2 ''fiber.csv'' ''behavior.dat''
              (the (resolve_normalisation ramp_session ''F'')) 0 (1, 3) ramp_rows ramp_rows (1, 2, 5)"
  obtain r where r: "areas trapezoid ?w = Inr r"
    using areas_trapezoid_cut_window [of ramp_rows ramp_rows] by blast
  from areas_Inr [OF r] obtain m where m: "r = perievent_window.extend ?w m" by blast
  have run: "analyze_perievent trapezoid ramp_session 2 (WPair 1 3) ''F''
        = (Returned r, ramp_session\<lparr>analyses := (analyses ramp_session)((0, 2, (1, 3)) \<mapsto> r)\<rparr>)"
    by (rule analyze_ramp [OF _ _ _ ramp_sample(1) r]) simp_all
  have seg: "time r = [1, 2, 3, 4, 5]" "pre_time r = [1, 2, 3]" "post_time r = [4, 5]"
    "preevent r = [3, 2, 4]" "postevent r = [6, 5]"
    "pre_raw_sig r = [3, 2, 4]" "post_raw_sig r = [6, 5]"
    unfolding m extend_segments cut_window_segments ramp_slices
    by (simp_all add: slice_upto_def slice_from_def col0_def col1_def)
  show ?thesis using ramp_sample(1) seg by (simp add: run)
qed

text \<open>
  C7. A call of \<^verbatim>\<open>analyze_perievent\<close> that does not return an analysis (it prints a
  message and returns \<^verbatim>\<open>None\<close>, or it raises) leaves the analysis cache, and the whole
  session, as it was before the call.
\<close>

theorem failed_call_leaves_cache:
  assumes "\<not> returned (fst (analyze_perievent I self ev win nrm))"
  shows "analyses (snd (analyze_perievent I self ev win nrm)) = analyses self
       \<and> snd (analyze_perievent I self ev win nrm) = self"
  using analyze_perievent_unchanged [OF assms] by simp

theorem failed_call_leaves_cache_witness:
  "\<not> returned (fst (analyze_perievent trapezoid ramp_session 9 (WPair 1 1) ''Z''))
   \<and> analyses (snd (analyze_perievent trapezoid ramp_session 9 (WPair 1 1) ''Z''))
       = analyses ramp_session"
proof -
  have "analyze_perievent trapezoid ramp_session 9 (WPair 1 1) ''Z''
      = (PrintedNone NoFiberRecording, ramp_session)"
    by (simp add: analyze_perievent_def resolve_normalisation_def ramp_session_def ramp_fiber_def)
  then have h: "\<not> returned (fst (analyze_perievent trapezoid ramp_session 9 (WPair 1 1) ''Z''))"
    by simp
  from failed_call_leaves_cache [OF h] h show ?thesis by simp
qed

text \<open>
  C4, as stated, fails: for the selector \<^verbatim>\<open>'X'\<close>, and for \<^verbatim>\<open>'raw'\<close>, the call prints
  the message and returns \<^verbatim>\<open>None\<close> and raises nothing, and the selector \<^verbatim>\<open>'default'\<close>,
  which is not among raw, F and Z, is accepted.
\<close>

theorem unknown_selector_is_printed_not_raised:
  "analyze_perievent trapezoid ramp_session 2 (WPair 1 1) ''X''
     = (PrintedNone InvalidNormalisationChoice, ramp_session)
   \<and> \<not> raised (fst (analyze_perievent trapezoid ramp_session 2 (WPair 1 1) ''X''))
   \<and> analyze_perievent trapezoid ramp_session 2 (WPair 1 1) ''raw''
     = (PrintedNone InvalidNormalisationChoice, ramp_session)
   \<and> returned (fst (analyze_perievent trapezoid ramp_session 2 (WPair 1 1) ''default''))"
proof -
  have x: "analyze_perievent trapezoid ramp_session 2 (WPair 1 1) ''X''
     = (PrintedNone InvalidNormalisationChoice, ramp_session)"
    by (simp add: analyze_perievent_def resolve_normalisation_def)
  have raw: "analyze_perievent trapezoid ramp_session 2 (WPair 1 1) ''raw''
     = (PrintedNone InvalidNormalisationChoice, ramp_session)"
    by (simp add: analyze_perievent_def resolve_normalisation_def)
  obtain r where r: "areas trapezoid (cut_window 2 ''fiber.csv'' ''behavior.dat''
              (the (resolve_normalisation ramp_session ''default'')) 0 (1, 1) ramp_rows ramp_rows (1, 2, 3)) = Inr r"
    using areas_trapezoid_cut_window [of ramp_rows ramp_rows] by blast
  have "analyze_perievent trapezoid ramp_session 2 (WPair 1 1) ''default''
        = (Returned r, ramp_session\<lparr>analyses := (analyses ramp_session)((0, 2, (1, 1)) \<mapsto> r)\<rparr>)"
    by (rule analyze_ramp [OF _ _ _ ramp_sample(3) r]) simp_all
  then have "returned (fst (analyze_perievent trapezoid ramp_session 2 (WPair 1 1) ''default''))"
    by simp
  with x raw show ?thesis by simp
qed

text \<open>
  C4, amended. For every selector string other than \<^verbatim>\<open>'default'\<close>, \<^verbatim>\<open>'F'\<close> and \<^verbatim>\<open>'Z'\<close>,
  \<^verbatim>\<open>analyze_perievent\<close> prints the message on the choice of normalisation and returns
  \<^verbatim>\<open>None\<close>; it raises nothing and leaves the session unchanged.
\<close>

theorem unrecognised_selector_prints_and_returns_None:
  assumes "nrm \<notin> {''default'', ''F'', ''Z''}"
  shows "analyze_perievent I self ev win nrm = (PrintedNone InvalidNormalisationChoice, self)"
  using assms by (simp add: analyze_perievent_def resolve_normalisation_def)

theorem unrecognised_selector_prints_and_returns_None_witness:
  "''raw'' \<notin> {''default'', ''F'', ''Z''}
   \<and> analyze_perievent trapezoid ramp_session 2 (WPair 1 1) ''raw''
       = (PrintedNone InvalidNormalisationChoice, ramp_session)"
proof -
  have h: "''raw'' \<notin> {''default'', ''F'', ''Z''}" by simp
  from unrecognised_selector_prints_and_returns_None [OF h] h show ?thesis by blast
qed

text \<open>
  C5, as stated, fails: for an event at 9 s, outside the only recording (0 s to 6 s), the
  call prints the message and returns \<^verbatim>\<open>None\<close>; nothing is raised.
\<close>

theorem missing_recording_is_printed_not_raised:
  "find_rec (fiber ramp_session) 9 = Inr []
   \<and> analyze_perievent trapezoid ramp_session 9 (WPair 1 1) ''F''
       = (PrintedNone NoFiberRecording, ramp_session)
   \<and> \<not> raised (fst (analyze_perievent trapezoid ramp_session 9 (WPair 1 1) ''F''))"
  by (simp add: analyze_perievent_def resolve_normalisation_def ramp_session_def ramp_fiber_def)

text \<open>
  C5, amended. For every event time stamp for which the lookup of the recording finds
  none (it returns an empty result, or raises \<^verbatim>\<open>IndexError\<close>), \<^verbatim>\<open>analyze_perievent\<close>, called
  with one of the selectors \<^verbatim>\<open>'default'\<close>, \<^verbatim>\<open>'F'\<close>, \<^verbatim>\<open>'Z'\<close>, prints that there is no fiber
  recording at this time stamp and returns \<^verbatim>\<open>None\<close>: no analysis is built on a default
  recording index, and the session is unchanged.
\<close>

theorem missing_recording_prints_and_returns_None:
  assumes "nrm \<in> {''default'', ''F'', ''Z''}"
    and "find_rec (fiber self) ev = Inr [] \<or> find_rec (fiber self) ev = Inl IndexError"
  shows "analyze_perievent I self ev win nrm = (PrintedNone NoFiberRecording, self)"
  using assms by (auto simp: analyze_perievent_def resolve_normalisation_def)

theorem missing_recording_prints_and_returns_None_witness:
  "''Z'' \<in> {''default'', ''F'', ''Z''}
   \<and> find_rec (fiber ramp_session) 9 = Inr []
   \<and> analyze_perievent trapezoid ramp_session 9 (WPair 1 1) ''Z''
       = (PrintedNone NoFiberRecording, ramp_session)"
proof -
  have h: "''Z'' \<in> {''default'', ''F'', ''Z''}" by simp
  have f: "find_rec (fiber ramp_session) 9 = Inr []"
    by (simp add: ramp_session_def ramp_fiber_def)
  from missing_recording_prints_and_returns_None [OF h disjI1 [OF f]] h f show ?thesis by blast
qed

subsection \<open>Areas under the curve\<close>

text \<open>
  C6, as stated, fails: the code has no check on the number of points. For the event at
  2 s and the window (1 s, 2 s) both segments hold two samples, and the call returns an
  analysis whose areas are what the integrator gave for two points.
\<close>

theorem short_segments_are_integrated:
  "case fst (analyze_perievent trapezoid ramp_session 2 (WPair 1 2) ''F'') of
     Returned r \<Rightarrow>
       preevent r = [3, 2] \<and> pre_time r = [1, 2] \<and> preAUC r = Some (5 / 2)
       \<and> postevent r = [4, 6] \<and> post_time r = [3, 4] \<and> postAUC r = Some 5
   | PrintedNone m \<Rightarrow> False
   | Raised e \<Rightarrow> False"
proof -
  let ?w = "cut_window 2 ''fiber.csv'' ''behavior.dat''
              (the (resolve_normalisation ramp_session ''F'')) 0 (1, 2) ramp_rows ramp_rows (1, 2, 4)"
  obtain r where r: "areas trapezoid ?w = Inr r"
    using areas_trapezoid_cut_window [of ramp_rows ramp_rows] by blast
  from areas_Inr [OF r] obtain a1 a2 a3 a4 a5 a6 a7 a8 where
    a3: "trapezoid (map Some (preevent ?w)) (pre_time ?w) = Inr a3"
    and a4: "trapezoid (map Some (postevent ?w)) (post_time ?w) = Inr a4"
    and m: "r = perievent_window.extend ?w (analysis.fields a1 a2 a3 a4 a5 a6 a7 a8)"
    by blast
  have run: "analyze_perievent trapezoid ramp_session 2 (WPair 1 2) ''F''
        = (Returned r, ramp_session\<lparr>analyses := (analyses ramp_session)((0, 2, (1, 2)) \<mapsto> r)\<rparr>)"
    by (rule analyze_ramp [OF _ _ _ ramp_sample(2) r]) simp_all
  have w: "preevent ?w = [3, 2]" "pre_time ?w = [1, 2]" "postevent ?w = [4, 6]" "post_time ?w = [3, 4]"
    unfolding cut_window_segments ramp_slices
    by (simp_all add: slice_upto_def slice_from_def col0_def col1_def)
  have seg: "preevent r = [3, 2]" "pre_time r = [1, 2]" "postevent r = [4, 6]" "post_time r = [3, 4]"
    unfolding m extend_segments by (rule w)+
  have "a3 = Some (5 / 2)" "a4 = Some 5"
    using a3 a4 unfolding w by (simp_all add: trapezoid_def finite_values_def)
  then have auc: "preAUC r = Some (5 / 2)" "postAUC r = Some 5"
    unfolding m extend_areas by simp_all
  show ?thesis using seg auc by (simp add: run)
qed

text \<open>
  C6, amended. \<^verbatim>\<open>analyze_perievent\<close> makes no check of its own on the number of points: for
  each pair of a representation and a segment, the area of a returned analysis is the
  value that the integrator (\<^verbatim>\<open>scipy.integrate.simpson\<close>) returns on the segment and its
  time sub-array, whatever their length.
\<close>

theorem areas_are_integrator_results:
  assumes "analyze_perievent I self ev win nrm = (Returned r, self')"
  shows "I (map Some (pre_raw_sig r)) (pre_time r) = Inr (pre_raw_AUC r)
       \<and> I (map Some (post_raw_sig r)) (post_time r) = Inr (post_raw_AUC r)
       \<and> I (map Some (preevent r)) (pre_time r) = Inr (preAUC r)
       \<and> I (map Some (postevent r)) (post_time r) = Inr (postAUC r)
       \<and> I (pre_zscores r) (pre_time r) = Inr (preZ_AUC r)
       \<and> I (post_zscores r) (post_time r) = Inr (postZ_AUC r)
       \<and> I (pre_Rzscores r) (pre_time r) = Inr (preRZ_AUC r)
       \<and> I (post_Rzscores r) (post_time r) = Inr (postRZ_AUC r)"
proof -
  from analyze_perievent_Returned [OF assms] obtain w where w: "areas I w = Inr r"
    by blast
  from areas_Inr [OF w] obtain a1 a2 a3 a4 a5 a6 a7 a8 where
    a: "I (map Some (pre_raw_sig w)) (pre_time w) = Inr a1"
       "I (map Some (post_raw_sig w)) (post_time w) = Inr a2"
       "I (map Some (preevent w)) (pre_time w) = Inr a3"
       "I (map Some (postevent w)) (post_time w) = Inr a4"
       "I (pre_zscores w) (pre_time w) = Inr a5"
       "I (post_zscores w) (post_time w) = Inr a6"
       "I (pre_Rzscores w) (pre_time w) = Inr a7"
       "I (post_Rzscores w) (post_time w) = Inr a8"
    and m: "r = perievent_window.extend w (analysis.fields a1 a2 a3 a4 a5 a6 a7 a8)"
    by blast
  show ?thesis unfolding m extend_segments extend_areas using a by simp
qed

theorem areas_are_integrator_results_witness:
  "\<exists>r s. analyze_perievent trapezoid ramp_session 2 (WPair 1 2) ''F'' = (Returned r, s)
     \<and> trapezoid (map Some (preevent r)) (pre_time r) = Inr (preAUC r)
     \<and> trapezoid (map Some (postevent r)) (post_time r) = Inr (postAUC r)"
proof -
  let ?w = "cut_window 2 ''fiber.csv'' ''behavior.dat''
              (the (resolve_normalisation ramp_session ''F'')) 0 (1, 2) ramp_rows ramp_rows (1, 2, 4)"
  obtain r where r: "areas trapezoid ?w = Inr r"
    using areas_trapezoid_cut_window [of ramp_rows ramp_rows] by blast
  have run: "analyze_perievent trapezoid ramp_session 2 (WPair 1 2) ''F''
        = (Returned r, ramp_session\<lparr>analyses := (analyses ramp_session)((0, 2, (1, 2)) \<mapsto> r)\<rparr>)"
    by (rule analyze_ramp [OF _ _ _ ramp_sample(2) r]) simp_all
  from areas_are_integrator_results [OF run] run show ?thesis by blast
qed

subsection \<open>The baseline z-scores of the pre-event segment\<close>

lemma sum_list_map_divide:
  "sum_list (map (\<lambda>x. f x / c) xs) = sum_list (map f xs) / (c::real)"
  by (induction xs) (simp_all add: add_divide_distrib)

lemma sum_list_map_shift:
  "sum_list (map (\<lambda>x. x - m) xs) = sum_list xs - real (length xs) * (m::real)"
  by (induction xs) (simp_all add: algebra_simps)

lemma finite_values_map_Some: "finite_values (map Some zs) = Some zs"
  by (simp add: finite_values_def list_all_iff comp_def)

lemma np_std_SomeD:
  assumes "np_std xs = Some sd"
  shows "xs \<noteq> [] \<and> np_mean xs = Some (sum_list xs / real (length xs))
       \<and> sd = sqrt (sum_list (map (\<lambda>x. (x - sum_list xs / real (length xs))\<^sup>2) xs) / real (length xs))"
  using assms by (auto simp: np_std_def np_mean_def split: if_splits)

lemma standardise_finite:
  assumes "sd \<noteq> 0"
  shows "standardise xs (Some m) (Some sd) = map Some (map (\<lambda>x. (x - m) / sd) xs)"
  using assms by (simp add: standardise_def fdiv_def)

lemma standardised_mean_std:
  assumes std: "np_std xs = Some sd" and nz: "sd \<noteq> 0"
  shows "fmean (standardise xs (np_mean xs) (np_std xs)) = Some 0"
    and "fstd (standardise xs (np_mean xs) (np_std xs)) = Some 1"
proof -
  define n where "n = real (length xs)"
  define m where "m = sum_list xs / n"
  define v where "v = sum_list (map (\<lambda>x. (x - m)\<^sup>2) xs) / n"
  define zs where "zs = map (\<lambda>x. (x - m) / sd) xs"
  from np_std_SomeD [OF std] have ne: "xs \<noteq> []" and mean: "np_mean xs = Some m"
    and sd: "sd = sqrt v"
    by (simp_all add: m_def n_def v_def)
  have npos: "0 < n" using ne by (simp add: n_def)
  have vnn: "0 \<le> v" unfolding v_def using npos
    by (intro divide_nonneg_pos sum_list_nonneg) auto
  have sd2: "sd\<^sup>2 = v" using sd vnn by simp
  have vnz: "v \<noteq> 0" using sd nz by auto
  have st: "standardise xs (np_mean xs) (np_std xs) = map Some zs"
    unfolding mean std zs_def by (rule standardise_finite [OF nz])
  have zne: "zs \<noteq> []" and zlen: "real (length zs) = n"
    using ne by (simp_all add: zs_def n_def)
  have "sum_list zs = (sum_list xs - n * m) / sd"
    unfolding zs_def sum_list_map_divide sum_list_map_shift n_def ..
  also have "sum_list xs - n * m = 0" using npos by (simp add: m_def)
  finally have zsum: "sum_list zs = 0" by simp
  have zmean: "np_mean zs = Some 0"
    using zne zsum by (simp add: np_mean_def)
  show "fmean (standardise xs (np_mean xs) (np_std xs)) = Some 0"
    unfolding st fmean_def finite_values_map_Some using zmean by simp
  have "map (\<lambda>z. (z - 0)\<^sup>2) zs = map (\<lambda>x. (x - m)\<^sup>2 / sd\<^sup>2) xs"
    by (simp add: zs_def power_divide)
  then have "sum_list (map (\<lambda>z. (z - 0)\<^sup>2) zs) = sum_list (map (\<lambda>x. (x - m)\<^sup>2) xs) / sd\<^sup>2"
    by (simp only: sum_list_map_divide)
  also have "\<dots> = n * v / v" using npos by (simp add: v_def sd2)
  also have "\<dots> = n" using vnz by simp
  finally have var: "sum_list (map (\<lambda>z. (z - 0)\<^sup>2) zs) / real (length zs) = 1"
    using npos zlen by simp
  have "np_mean (map (\<lambda>z. (z - 0)\<^sup>2) zs)
      = Some (sum_list (map (\<lambda>z. (z - 0)\<^sup>2) zs) / real (length (map (\<lambda>z. (z - 0)\<^sup>2) zs)))"
    unfolding np_mean_def using zne by simp
  then have m2: "np_mean (map (\<lambda>z. (z - 0)\<^sup>2) zs) = Some 1"
    unfolding length_map var .
  have "np_std zs = Some 1"
    using m2 by (simp add: np_std_def zmean)
  then show "fstd (standardise xs (np_mean xs) (np_std xs)) = Some 1"
    unfolding st fstd_def finite_values_map_Some by simp
qed

lemma slice_upto_map: "slice_upto k (map f xs) = map f (slice_upto k xs)"
  by (simp add: slice_upto_def take_map)

lemma slice_upto_standardise:
  "slice_upto k (standardise xs c s) = standardise (slice_upto k xs) c s"
  by (simp add: standardise_def slice_upto_def take_map)

lemma pre_zscores_cut_window:
  "pre_zscores (cut_window ev ff bf nn recno w recd raw idx)
     = standardise (preevent (cut_window ev ff bf nn recno w recd raw idx))
         (np_mean (preevent (cut_window ev ff bf nn recno w recd raw idx)))
         (np_std (preevent (cut_window ev ff bf nn recno w recd raw idx)))"
proof -
  obtain si ei ni where idx: "idx = (si, ei, ni)" by (cases idx) auto
  show ?thesis
    unfolding idx cut_window_zscores(2) cut_window_zscores(1) cut_window_segments
      slice_upto_standardise slice_upto_map ..
qed

text \<open>
  C9. In an analysis that the call returns, if the pre-event segment has a non-zero
  standard deviation, then the baseline z-scores restricted to the pre-event segment
  have mean 0 and standard deviation 1 (in exact arithmetic): they are normalised with
  the mean and the standard deviation of that same segment.
\<close>

theorem pre_zscores_mean_zero_std_one:
  assumes "analyze_perievent I self ev win nrm = (Returned r, self')"
    and "np_std (preevent r) = Some sd" and "sd \<noteq> 0"
  shows "pre_zscores r = standardise (preevent r) (np_mean (preevent r)) (np_std (preevent r))
       \<and> fmean (pre_zscores r) = Some 0 \<and> fstd (pre_zscores r) = Some 1"
proof -
  from analyze_perievent_Returned [OF assms(1)] obtain nn recno recd raw w idx where
    w: "areas I (cut_window ev (fiber_filepath (fiber self)) (behavior_filepath (behavior self))
                nn recno w recd raw idx) = Inr r"
    by blast
  from areas_Inr [OF w] obtain m where
    m: "r = perievent_window.extend (cut_window ev (fiber_filepath (fiber self))
              (behavior_filepath (behavior self)) nn recno w recd raw idx) m"
    by blast
  have z: "pre_zscores r = standardise (preevent r) (np_mean (preevent r)) (np_std (preevent r))"
    unfolding m extend_segments by (rule pre_zscores_cut_window)
  from standardised_mean_std [OF assms(2,3)] z show ?thesis by simp
qed

lemma sqrt_quarter: "sqrt (1 / 4) = 1 / 2"
  by (rule real_sqrt_unique) (simp_all add: power2_eq_square)

theorem pre_zscores_mean_zero_std_one_witness:
  "\<exists>r s. analyze_perievent trapezoid ramp_session 2 (WPair 1 2) ''F'' = (Returned r, s)
     \<and> preevent r = [3, 2]
     \<and> np_std (preevent r) = Some (1 / 2)
     \<and> (1 / 2 :: real) \<noteq> 0
     \<and> fmean (pre_zscores r) = Some 0 \<and> fstd (pre_zscores r) = Some 1"
proof -
  let ?w = "cut_window 2 ''fiber.csv'' ''behavior.dat''
              (the (resolve_normalisation ramp_session ''F'')) 0 (1, 2) ramp_rows ramp_rows (1, 2, 4)"
  obtain r where r: "areas trapezoid ?w = Inr r"
    using areas_trapezoid_cut_window [of ramp_rows ramp_rows] by blast
  from areas_Inr [OF r] obtain m where m: "r = perievent_window.extend ?w m" by blast
  have run: "analyze_perievent trapezoid ramp_session 2 (WPair 1 2) ''F''
        = (Returned r, ramp_session\<lparr>analyses := (analyses ramp_session)((0, 2, (1, 2)) \<mapsto> r)\<rparr>)"
    by (rule analyze_ramp [OF _ _ _ ramp_sample(2) r]) simp_all
  have "preevent ?w = [3, 2]"
    unfolding cut_window_segments ramp_slices by (simp add: slice_upto_def col1_def)
  then have pre: "preevent r = [3, 2]" unfolding m extend_segments .
  have "np_std [3, 2] = Some (sqrt (1 / 4))"
    by (simp add: np_std_def np_mean_def power2_eq_square)
  then have sd: "np_std (preevent r) = Some (1 / 2)" by (simp add: pre sqrt_quarter)
  have nz: "(1 / 2 :: real) \<noteq> 0" by simp
  from pre_zscores_mean_zero_std_one [OF run sd nz] run pre sd nz show ?thesis by blast
qed

subsection \<open>Changing the default window\<close>

text \<open>
  C10. \<^verbatim>\<open>update_window\<close> changes at most the default window and the two mappings derived
  from it: the session after the call is the session before it with those three fields
  assigned. The cache of analyses, the behavioural and the fiber data and every other
  field are unchanged, also when a method of the behavioural data raises.
\<close>

theorem update_window_changes_three_fields:
  "(\<exists>ae ri. snd (update_window self new_window)
        = self\<lparr>default_window := new_window, analyzable_events := ae, recorded_intervals := ri\<rparr>)
   \<and> default_window (snd (update_window self new_window)) = new_window
   \<and> analyses (snd (update_window self new_window)) = analyses self
   \<and> behavior (snd (update_window self new_window)) = behavior self
   \<and> fiber (snd (update_window self new_window)) = fiber self
   \<and> rat_ID (snd (update_window self new_window)) = rat_ID self
   \<and> default_norm (snd (update_window self new_window)) = default_norm self"
proof -
  have frame: "\<exists>ae ri. snd (update_window self new_window)
        = self\<lparr>default_window := new_window, analyzable_events := ae, recorded_intervals := ri\<rparr>"
  proof (cases "events (behavior self) True new_window")
    case (Inl e)
    then have "snd (update_window self new_window)
        = self\<lparr>default_window := new_window, analyzable_events := analyzable_events self,
               recorded_intervals := recorded_intervals self\<rparr>"
      by (simp add: update_window_def)
    then show ?thesis by blast
  next
    case (Inr evs)
    show ?thesis
    proof (cases "intervals (behavior self) True new_window")
      case (Inl e)
      with Inr have "snd (update_window self new_window)
        = self\<lparr>default_window := new_window, analyzable_events := evs,
               recorded_intervals := recorded_intervals self\<rparr>"
        by (simp add: update_window_def)
      then show ?thesis by blast
    next
      case (Inr ivs)
      with \<open>events (behavior self) True new_window = Inr evs\<close>
      have "snd (update_window self new_window)
        = self\<lparr>default_window := new_window, analyzable_events := evs, recorded_intervals := ivs\<rparr>"
        by (simp add: update_window_def)
      then show ?thesis by blast
    qed
  qed
  then obtain ae ri where eq: "snd (update_window self new_window)
        = self\<lparr>default_window := new_window, analyzable_events := ae, recorded_intervals := ri\<rparr>"
    by blast
  show ?thesis using frame unfolding eq by simp
qed

subsection \<open>The smoother\<close>












text \<open>The window given in milliseconds is resolved in float arithmetic: 70 ms at 100 Hz is
  \<^verbatim>\<open>ceil(70/1000 * 100.0)\<close>, and the rounded product lies above 7.\<close>

lemma resolve_70ms:
  "resolve_smooth_window parse_example (Fin 100) (SStr ''70ms'') = Inr (SInt 8)"
proof -
  have a: "round64 (70 / 1000) = Fin (5044031582654956 / 2 ^ 56)"
    by (rule round64_at [where e = "- 4"]) (simp_all add: rne_def)
  have b: "round64 (5044031582654956 / 2 ^ 56 * 100) = Fin (7881299347898369 / 2 ^ 50)"
    by (rule round64_at [where e = 2]) (simp_all add: rne_def)
  have "xmul (xdiv_const (Fin 70) 1000) (Fin 100) = Fin (7881299347898369 / 2 ^ 50)"
    by (simp only: xdiv_const_def xmul_def xfloat.case prod.case a b)
  moreover have "\<lceil>7881299347898369 / 2 ^ 50 :: real\<rceil> = 8"
    by (simp add: ceiling_eq_iff)
  ultimately have "py_ceil (xmul (xdiv_const (Fin 70) 1000) (Fin 100)) = Inr 8"
    by (simp only: py_ceil_def xfloat.case)
  then show ?thesis
    by (simp add: resolve_smooth_window_def slice_from_def slice_upto_def parse_example_def)
qed




end
